theory Spec2Isabelle
  imports Main
begin

section \<open>Python values and exceptions\<close>

text \<open>
  The backend (\<^verbatim>\<open>backend/app.py\<close>) handles values whose shape it probes at run time:
  JSON request bodies and whatever the upstream client returns. They are modelled by one
  datatype of Python values. A string is a list of characters, each \<open>char\<close> standing for one
  code point below 256.

  An exception is a class and the text that \<^verbatim>\<open>str(e)\<close> gives. Only subclasses of
  \<^verbatim>\<open>Exception\<close> are modelled: they are what every handler of the source catches. The class
  \<open>TypeError\<close> stands for \<^verbatim>\<open>TypeError\<close> and its subclasses, \<open>AttributeError\<close> likewise.
\<close>

datatype exc_class =
    TypeError | RuntimeError | AttributeError | KeyError | IndexError | Exception
  | OtherError string

datatype exc = Exc (cls: exc_class) (message: string)

text \<open>A float is \<open>m * 2^e\<close>, an infinity with its sign, or not a number.\<close>

datatype pyfloat = Finite int int | Infinite bool | NaN

text \<open>
  \<open>PObj c attrs base\<close> is an instance of a class named \<open>c\<close>. \<open>attrs\<close> gives, for each attribute
  the instance exposes, what reading it does: it yields a value, or (a property) raises.
  \<open>base\<close> is the builtin value the instance is when its class derives from \<^verbatim>\<open>str\<close>,
  \<^verbatim>\<open>list\<close>, \<^verbatim>\<open>tuple\<close> or \<^verbatim>\<open>dict\<close>, so that \<^verbatim>\<open>isinstance\<close> sees through it.
\<close>

datatype pyval =
    PNone
  | PBool bool
  | PInt int
  | PFloat pyfloat
  | PStr string
  | PList "pyval list"
  | PTuple "pyval list"
  | PDict "(string \<times> pyval) list"
  | PObj string "(string \<times> (exc + pyval)) list" "pyval option"

text \<open>
  The builtins the source calls and whose definitions lie outside the repository are taken
  as parameters. \<^verbatim>\<open>str(x)\<close> on a value gives a string or raises, as the \<^verbatim>\<open>__str__\<close> of the
  value's class does. \<^verbatim>\<open>repr(e)\<close> on an exception gives a string. \<open>json_default\<close> is the
  exception, if any, that the JSON encoder raises on a value it cannot write by itself: an
  integer (one with more digits than the interpreter converts) or an instance of a class
  that derives from no builtin type.
\<close>

record runtime =
  str_value :: "pyval \<Rightarrow> exc + string"
  repr_exc :: "exc \<Rightarrow> string"
  json_default :: "pyval \<Rightarrow> exc option"

subsection \<open>\<^verbatim>\<open>isinstance\<close>, truth value, attribute and item access\<close>

fun as_str :: "pyval \<Rightarrow> string option" where
  "as_str (PStr s) = Some s"
| "as_str (PObj c attrs (Some b)) = as_str b"
| "as_str _ = None"

fun as_list :: "pyval \<Rightarrow> pyval list option" where
  "as_list (PList xs) = Some xs"
| "as_list (PObj c attrs (Some b)) = as_list b"
| "as_list _ = None"

text \<open>\<^verbatim>\<open>isinstance(x, (list, tuple))\<close>\<close>

fun as_seq :: "pyval \<Rightarrow> pyval list option" where
  "as_seq (PList xs) = Some xs"
| "as_seq (PTuple xs) = Some xs"
| "as_seq (PObj c attrs (Some b)) = as_seq b"
| "as_seq _ = None"

fun as_dict :: "pyval \<Rightarrow> (string \<times> pyval) list option" where
  "as_dict (PDict d) = Some d"
| "as_dict (PObj c attrs (Some b)) = as_dict b"
| "as_dict _ = None"

definition is_str :: "pyval \<Rightarrow> bool" where
  "is_str v = (as_str v \<noteq> None)"

fun truthy :: "pyval \<Rightarrow> bool" where
  "truthy PNone = False"
| "truthy (PBool b) = b"
| "truthy (PInt i) = (i \<noteq> 0)"
| "truthy (PFloat (Finite m e)) = (m \<noteq> 0)"
| "truthy (PFloat f) = True"
| "truthy (PStr s) = (s \<noteq> [])"
| "truthy (PList xs) = (xs \<noteq> [])"
| "truthy (PTuple xs) = (xs \<noteq> [])"
| "truthy (PDict d) = (d \<noteq> [])"
| "truthy (PObj c attrs None) = True"
| "truthy (PObj c attrs (Some b)) = truthy b"

fun type_name :: "pyval \<Rightarrow> string" where
  "type_name PNone = ''NoneType''"
| "type_name (PBool b) = ''bool''"
| "type_name (PInt i) = ''int''"
| "type_name (PFloat f) = ''float''"
| "type_name (PStr s) = ''str''"
| "type_name (PList xs) = ''list''"
| "type_name (PTuple xs) = ''tuple''"
| "type_name (PDict d) = ''dict''"
| "type_name (PObj c attrs b) = c"

definition quoted :: "string \<Rightarrow> string" where
  "quoted s = [CHR 0x27] @ s @ [CHR 0x27]"

definition no_attribute :: "pyval \<Rightarrow> string \<Rightarrow> exc" where
  "no_attribute v a =
     Exc AttributeError (quoted (type_name v) @ '' object has no attribute '' @ quoted a)"

text \<open>
  Reading an attribute. The builtin types have no attribute named \<^verbatim>\<open>text\<close>,
  \<^verbatim>\<open>candidates\<close>, \<^verbatim>\<open>outputs\<close>, \<^verbatim>\<open>get\<close> (other than \<^verbatim>\<open>dict\<close>) or \<^verbatim>\<open>strip\<close> (other than
  \<^verbatim>\<open>str\<close>); the two methods are modelled where they are called.
\<close>

definition getattr :: "pyval \<Rightarrow> string \<Rightarrow> exc + pyval" where
  "getattr v a =
     (case v of
        PObj c attrs b \<Rightarrow> (case map_of attrs a of None \<Rightarrow> Inl (no_attribute v a) | Some r \<Rightarrow> r)
      | _ \<Rightarrow> Inl (no_attribute v a))"

text \<open>\<^verbatim>\<open>hasattr\<close> answers False on an \<^verbatim>\<open>AttributeError\<close> and lets any other exception through.\<close>

definition hasattr :: "pyval \<Rightarrow> string \<Rightarrow> exc + bool" where
  "hasattr v a =
     (case getattr v a of
        Inr x \<Rightarrow> Inr True
      | Inl e \<Rightarrow> if cls e = AttributeError then Inr False else Inl e)"

definition contains_key :: "string \<Rightarrow> (string \<times> pyval) list \<Rightarrow> bool" where
  "contains_key k d = (map_of d k \<noteq> None)"

definition getitem :: "(string \<times> pyval) list \<Rightarrow> string \<Rightarrow> exc + pyval" where
  "getitem d k = (case map_of d k of None \<Rightarrow> Inl (Exc KeyError (quoted k)) | Some v \<Rightarrow> Inr v)"

text \<open>\<^verbatim>\<open>xs[0]\<close>\<close>

definition first_item :: "pyval list \<Rightarrow> exc + pyval" where
  "first_item xs =
     (case xs of [] \<Rightarrow> Inl (Exc IndexError ''list index out of range'') | x # rest \<Rightarrow> Inr x)"

section \<open>Response normalizer: \<^verbatim>\<open>_parse_response_text\<close>\<close>

text \<open>
  What a block of statements does: it returns a value, raises, or runs to its end.
\<close>

datatype outcome = Returned pyval | Raised exc | Passed

definition seq :: "outcome \<Rightarrow> outcome \<Rightarrow> outcome" where
  "seq s t = (case s of Passed \<Rightarrow> t | Returned v \<Rightarrow> Returned v | Raised e \<Rightarrow> Raised e)"

text \<open>
  \<^verbatim>\<open>for k in keys: if k in first and isinstance(first[k], str): return first[k]\<close>
\<close>

fun first_str_key :: "string list \<Rightarrow> (string \<times> pyval) list \<Rightarrow> outcome" where
  "first_str_key [] d = Passed"
| "first_str_key (k # ks) d =
     (if contains_key k d then
        (case getitem d k of
           Inl e \<Rightarrow> Raised e
         | Inr v \<Rightarrow>
             if is_str v then (case getitem d k of Inl e \<Rightarrow> Raised e | Inr w \<Rightarrow> Returned w)
             else first_str_key ks d)
      else first_str_key ks d)"

text \<open>Lines 66-67: the direct \<^verbatim>\<open>text\<close> attribute.\<close>

definition rule_text :: "pyval \<Rightarrow> outcome" where
  "rule_text resp =
     (case hasattr resp ''text'' of
        Inl e \<Rightarrow> Raised e
      | Inr h \<Rightarrow>
          if h then
            (case getattr resp ''text'' of
               Inl e \<Rightarrow> Raised e
             | Inr t \<Rightarrow>
                 if is_str t then
                   (case getattr resp ''text'' of Inl e \<Rightarrow> Raised e | Inr v \<Rightarrow> Returned v)
                 else Passed)
          else Passed)"

text \<open>Lines 69-70: the \<^verbatim>\<open>"output"\<close> entry of a mapping.\<close>

definition rule_output_key :: "(string \<times> pyval) list \<Rightarrow> outcome" where
  "rule_output_key d =
     (if contains_key ''output'' d then
        (case getitem d ''output'' of
           Inl e \<Rightarrow> Raised e
         | Inr v \<Rightarrow>
             if is_str v then (case getitem d ''output'' of Inl e \<Rightarrow> Raised e | Inr w \<Rightarrow> Returned w)
             else Passed)
      else Passed)"

text \<open>Lines 71-76: the \<^verbatim>\<open>"outputs"\<close> entry of a mapping.\<close>

definition rule_outputs_key :: "(string \<times> pyval) list \<Rightarrow> outcome" where
  "rule_outputs_key d =
     (if contains_key ''outputs'' d then
        (case getitem d ''outputs'' of
           Inl e \<Rightarrow> Raised e
         | Inr os \<Rightarrow>
             (case as_list os of
                None \<Rightarrow> Passed
              | Some xs \<Rightarrow>
                  if xs \<noteq> [] then
                    (case first_item xs of
                       Inl e \<Rightarrow> Raised e
                     | Inr first \<Rightarrow>
                         (case as_dict first of
                            None \<Rightarrow> Passed
                          | Some fd \<Rightarrow> first_str_key [''content'', ''text'', ''output''] fd))
                  else Passed))
      else Passed)"

text \<open>Lines 77-80: the \<^verbatim>\<open>"candidates"\<close> entry of a mapping. The entry is returned as it is.\<close>

definition rule_candidates_key :: "(string \<times> pyval) list \<Rightarrow> outcome" where
  "rule_candidates_key d =
     (if contains_key ''candidates'' d then
        (case getitem d ''candidates'' of
           Inl e \<Rightarrow> Raised e
         | Inr cs \<Rightarrow>
             (case as_list cs of
                None \<Rightarrow> Passed
              | Some xs \<Rightarrow>
                  if xs \<noteq> [] then
                    (case first_item xs of
                       Inl e \<Rightarrow> Raised e
                     | Inr cand \<Rightarrow>
                         (case as_dict cand of
                            None \<Rightarrow> Passed
                          | Some cd \<Rightarrow>
                              if contains_key ''output'' cd then
                                (case getitem cd ''output'' of
                                   Inl e \<Rightarrow> Raised e
                                 | Inr v \<Rightarrow> Returned v)
                              else Passed))
                  else Passed))
      else Passed)"

text \<open>Lines 68-80: the three rules that apply when the response is a mapping.\<close>

definition rules_dict :: "pyval \<Rightarrow> outcome" where
  "rules_dict resp =
     (case as_dict resp of
        None \<Rightarrow> Passed
      | Some d \<Rightarrow> seq (rule_output_key d) (seq (rule_outputs_key d) (rule_candidates_key d)))"

text \<open>Lines 81-88: the \<^verbatim>\<open>candidates\<close> attribute. Again the value is returned as it is.\<close>

definition rule_candidates_attr :: "pyval \<Rightarrow> outcome" where
  "rule_candidates_attr resp =
     (case hasattr resp ''candidates'' of
        Inl e \<Rightarrow> Raised e
      | Inr h \<Rightarrow>
          if h then
            (case getattr resp ''candidates'' of
               Inl e \<Rightarrow> Raised e
             | Inr cands \<Rightarrow>
                 (case as_seq cands of
                    None \<Rightarrow> Passed
                  | Some xs \<Rightarrow>
                      if xs \<noteq> [] then
                        (case first_item xs of
                           Inl e \<Rightarrow> Raised e
                         | Inr first \<Rightarrow>
                             (case hasattr first ''text'' of
                                Inl e \<Rightarrow> Raised e
                              | Inr ht \<Rightarrow>
                                  if ht then
                                    (case getattr first ''text'' of
                                       Inl e \<Rightarrow> Raised e
                                     | Inr v \<Rightarrow> Returned v)
                                  else
                                    (case as_dict first of
                                       None \<Rightarrow> Passed
                                     | Some fd \<Rightarrow>
                                         if contains_key ''output'' fd then
                                           (case getitem fd ''output'' of
                                              Inl e \<Rightarrow> Raised e
                                            | Inr v \<Rightarrow> Returned v)
                                         else Passed)))
                      else Passed))
          else Passed)"

text \<open>Lines 89-98: the \<^verbatim>\<open>outputs\<close> attribute.\<close>

definition rule_outputs_attr :: "pyval \<Rightarrow> outcome" where
  "rule_outputs_attr resp =
     (case hasattr resp ''outputs'' of
        Inl e \<Rightarrow> Raised e
      | Inr h \<Rightarrow>
          if h then
            (case getattr resp ''outputs'' of
               Inl e \<Rightarrow> Raised e
             | Inr outs \<Rightarrow>
                 (case as_seq outs of
                    None \<Rightarrow> Passed
                  | Some xs \<Rightarrow>
                      if xs \<noteq> [] then
                        (case first_item xs of
                           Inl e \<Rightarrow> Raised e
                         | Inr first \<Rightarrow>
                             if is_str first then Returned first
                             else
                               (case as_dict first of
                                  None \<Rightarrow> Passed
                                | Some fd \<Rightarrow>
                                    first_str_key [''content'', ''text'', ''output''] fd))
                      else Passed))
          else Passed)"

text \<open>The body of the \<^verbatim>\<open>try\<close>, up to the final \<^verbatim>\<open>return str(resp)\<close>.\<close>

definition parse_rules :: "pyval \<Rightarrow> outcome" where
  "parse_rules resp =
     seq (rule_text resp)
       (seq (rules_dict resp) (seq (rule_candidates_attr resp) (rule_outputs_attr resp)))"

text \<open>
  \<^verbatim>\<open>return str(resp)\<close>, which is the last statement of the \<^verbatim>\<open>try\<close> and also the whole
  handler: it returns the string, or raises when \<^verbatim>\<open>str\<close> does.
\<close>

definition return_str :: "runtime \<Rightarrow> pyval \<Rightarrow> exc + pyval" where
  "return_str rt resp = (case str_value rt resp of Inl e \<Rightarrow> Inl e | Inr s \<Rightarrow> Inr (PStr s))"

text \<open>
  The whole function. When a rule raises, the handler returns \<^verbatim>\<open>str(resp)\<close>. When no rule
  returns, line 99 returns \<^verbatim>\<open>str(resp)\<close>; if that raises, the handler runs \<^verbatim>\<open>str(resp)\<close>
  again, outside any \<^verbatim>\<open>try\<close>, and its exception leaves the function.
\<close>

definition parse_response_text :: "runtime \<Rightarrow> pyval \<Rightarrow> exc + pyval" where
  "parse_response_text rt resp =
     (case parse_rules resp of
        Returned v \<Rightarrow> Inr v
      | Raised e \<Rightarrow> return_str rt resp
      | Passed \<Rightarrow>
          (case return_str rt resp of
             Inr v \<Rightarrow> Inr v
           | Inl e \<Rightarrow> return_str rt resp))"

section \<open>String methods\<close>

text \<open>
  \<^verbatim>\<open>str.lower\<close> and \<^verbatim>\<open>str.strip\<close> on code points below 256: the letters with a lower-case
  form there are A-Z and U+00C0-U+00DE without U+00D7; the white space there is
  U+0009-U+000D, U+001C-U+0020, U+0085 and U+00A0.
\<close>

definition lower_char :: "char \<Rightarrow> char" where
  "lower_char c =
     (let n = (of_char c :: nat) in
      if (65 \<le> n \<and> n \<le> 90) \<or> (192 \<le> n \<and> n \<le> 222 \<and> n \<noteq> 215) then char_of (n + 32) else c)"

definition lower :: "string \<Rightarrow> string" where
  "lower s = map lower_char s"

definition is_space :: "char \<Rightarrow> bool" where
  "is_space c =
     (let n = (of_char c :: nat) in
      (9 \<le> n \<and> n \<le> 13) \<or> (28 \<le> n \<and> n \<le> 32) \<or> n = 133 \<or> n = 160)"

definition strip :: "string \<Rightarrow> string" where
  "strip s = rev (dropWhile is_space (rev (dropWhile is_space s)))"

section \<open>The upstream client\<close>

text \<open>
  A model descriptor as \<^verbatim>\<open>genai.list_models()\<close> yields it. The source reads its attributes
  with \<^verbatim>\<open>getattr\<close> and a default, so each may be absent (\<open>None\<close>); \<open>capabilities\<close> is \<open>None\<close>
  also when the attribute holds \<^verbatim>\<open>None\<close>. \<open>str_repr\<close> is what \<^verbatim>\<open>str(m)\<close> gives.
\<close>

record model_descriptor =
  name :: "string option"
  displayName :: "string option"
  capabilities :: "string list option"
  str_repr :: string

datatype prompt_kw = Input string | Prompt string

text \<open>The calls made to the upstream client, with their arguments, in the order made.\<close>

datatype call =
    ListModels
  | GenerateText string string int pyfloat
  | Generate string string int pyfloat
  | ResponsesCreate string prompt_kw int pyfloat
  | Create string string

text \<open>
  The module \<^verbatim>\<open>genai\<close>. A generation function that the module does not have
  (\<^verbatim>\<open>hasattr\<close> is False) is \<open>None\<close>. A call returns a value or raises. \<open>list_models\<close> is the
  outcome of \<^verbatim>\<open>list(genai.list_models())\<close>.
\<close>

record responses_ns =
  responses_create :: "(string \<Rightarrow> prompt_kw \<Rightarrow> int \<Rightarrow> pyfloat \<Rightarrow> exc + pyval) option"

record genai =
  list_models :: "exc + model_descriptor list"
  generate_text :: "(string \<Rightarrow> string \<Rightarrow> int \<Rightarrow> pyfloat \<Rightarrow> exc + pyval) option"
  generate :: "(string \<Rightarrow> string \<Rightarrow> int \<Rightarrow> pyfloat \<Rightarrow> exc + pyval) option"
  responses :: "responses_ns option"
  create :: "(string \<Rightarrow> string \<Rightarrow> exc + pyval) option"

section \<open>Model selector: \<^verbatim>\<open>_get_models_list\<close> and \<^verbatim>\<open>choose_model\<close>\<close>

text \<open>Every function that calls upstream returns its result and the calls it made.\<close>

definition get_models_list :: "genai \<Rightarrow> (exc + model_descriptor list) \<times> call list" where
  "get_models_list g =
     (case list_models g of
        Inr models \<Rightarrow> (Inr models, [ListModels])
      | Inl e \<Rightarrow> (Inl (Exc RuntimeError (''Failed to list models: '' @ message e)), [ListModels]))"

definition default_preferred :: "string list" where
  "default_preferred =
     [''gemini-pro'', ''gemini-1.5-pro'', ''gemini-ultra-1.0'', ''gemini-1.0'',
      ''text-bison@001'', ''text-bison'']"

text \<open>\<^verbatim>\<open>getattr(m, "name", str(m))\<close>\<close>

definition name_or_str :: "model_descriptor \<Rightarrow> string" where
  "name_or_str m = (case name m of Some n \<Rightarrow> n | None \<Rightarrow> str_repr m)"

text \<open>
  \<^verbatim>\<open>{getattr(m, "name", str(m)).lower(): m for m in models}\<close>: a later descriptor replaces
  an earlier one under the same key.
\<close>

definition available_of :: "model_descriptor list \<Rightarrow> (string \<rightharpoonup> model_descriptor)" where
  "available_of models = foldl (\<lambda>a m. a(lower (name_or_str m) \<mapsto> m)) Map.empty models"

text \<open>Lines 53-55: the loop over the preferred list.\<close>

fun first_preferred :: "(string \<rightharpoonup> model_descriptor) \<Rightarrow> string list \<Rightarrow> string option" where
  "first_preferred available [] = None"
| "first_preferred available (cand # rest) =
     (case available (lower cand) of
        Some m \<Rightarrow> Some (name_or_str m)
      | None \<Rightarrow> first_preferred available rest)"

definition generation_tags :: "string list" where
  "generation_tags = [''generate'', ''generations'', ''text'', ''chat'', ''responses'']"

text \<open>Lines 56-61: the loop over the descriptors, looking at their capabilities.\<close>

fun first_capable :: "model_descriptor list \<Rightarrow> string option" where
  "first_capable [] = None"
| "first_capable (m # ms) =
     (case capabilities m of
        None \<Rightarrow> first_capable ms
      | Some caps \<Rightarrow>
          if caps \<noteq> [] then
            (let low_caps = map lower caps in
             if list_ex (\<lambda>k. k \<in> set low_caps) generation_tags then Some (name_or_str m)
             else first_capable ms)
          else first_capable ms)"

definition choose_model :: "genai \<Rightarrow> string list option \<Rightarrow> (exc + string) \<times> call list" where
  "choose_model g preferred =
     (let preferred_list = (case preferred of None \<Rightarrow> default_preferred | Some p \<Rightarrow> p) in
      case get_models_list g of
        (Inl e, calls) \<Rightarrow> (Inl e, calls)
      | (Inr models, calls) \<Rightarrow>
          (case models of
             [] \<Rightarrow> (Inl (Exc RuntimeError ''No models returned by the API (empty list).''), calls)
           | m0 # others \<Rightarrow>
               (case first_preferred (available_of models) preferred_list of
                  Some n \<Rightarrow> (Inr n, calls)
                | None \<Rightarrow>
                    (case first_capable models of
                       Some n \<Rightarrow> (Inr n, calls)
                     | None \<Rightarrow> (Inr (name_or_str m0), calls)))))"

section \<open>Generation invoker: \<^verbatim>\<open>generate_text_with_model\<close>\<close>

text \<open>
  Each of the four \<^verbatim>\<open>try\<close> blocks returns the normalized response, or catches an
  exception (\<open>Raised\<close>, which the handler stores in \<^verbatim>\<open>last_exc\<close>), or does nothing because
  the module lacks the function (\<open>Passed\<close>).
\<close>

definition strategy_generate_text ::
  "runtime \<Rightarrow> genai \<Rightarrow> string \<Rightarrow> string \<Rightarrow> int \<Rightarrow> pyfloat \<Rightarrow> outcome \<times> call list" where
  "strategy_generate_text rt g model_name prompt max_output_tokens temperature =
     (case generate_text g of
        None \<Rightarrow> (Passed, [])
      | Some f \<Rightarrow>
          (case f model_name prompt max_output_tokens temperature of
             Inl e \<Rightarrow> (Raised e, [GenerateText model_name prompt max_output_tokens temperature])
           | Inr resp \<Rightarrow>
               (case parse_response_text rt resp of
                  Inl e \<Rightarrow> (Raised e, [GenerateText model_name prompt max_output_tokens temperature])
                | Inr v \<Rightarrow>
                    (Returned v, [GenerateText model_name prompt max_output_tokens temperature]))))"

definition strategy_generate ::
  "runtime \<Rightarrow> genai \<Rightarrow> string \<Rightarrow> string \<Rightarrow> int \<Rightarrow> pyfloat \<Rightarrow> outcome \<times> call list" where
  "strategy_generate rt g model_name prompt max_output_tokens temperature =
     (case generate g of
        None \<Rightarrow> (Passed, [])
      | Some f \<Rightarrow>
          (case f model_name prompt max_output_tokens temperature of
             Inl e \<Rightarrow> (Raised e, [Generate model_name prompt max_output_tokens temperature])
           | Inr resp \<Rightarrow>
               (case parse_response_text rt resp of
                  Inl e \<Rightarrow> (Raised e, [Generate model_name prompt max_output_tokens temperature])
                | Inr v \<Rightarrow> (Returned v, [Generate model_name prompt max_output_tokens temperature]))))"

text \<open>
  Lines 124-129: \<^verbatim>\<open>responses.create\<close> with \<^verbatim>\<open>input=\<close>, and with \<^verbatim>\<open>prompt=\<close> when the first
  call raises a \<^verbatim>\<open>TypeError\<close>. Any other exception of the first call, and any exception of
  the second, leaves the inner \<^verbatim>\<open>try\<close>.
\<close>

definition responses_create_call ::
  "(string \<Rightarrow> prompt_kw \<Rightarrow> int \<Rightarrow> pyfloat \<Rightarrow> exc + pyval) \<Rightarrow>
     string \<Rightarrow> string \<Rightarrow> int \<Rightarrow> pyfloat \<Rightarrow> (exc + pyval) \<times> call list" where
  "responses_create_call f model_name prompt max_output_tokens temperature =
     (case f model_name (Input prompt) max_output_tokens temperature of
        Inr resp \<Rightarrow> (Inr resp, [ResponsesCreate model_name (Input prompt) max_output_tokens temperature])
      | Inl e \<Rightarrow>
          if cls e = TypeError then
            (f model_name (Prompt prompt) max_output_tokens temperature,
             [ResponsesCreate model_name (Input prompt) max_output_tokens temperature,
              ResponsesCreate model_name (Prompt prompt) max_output_tokens temperature])
          else (Inl e, [ResponsesCreate model_name (Input prompt) max_output_tokens temperature]))"

definition strategy_responses ::
  "runtime \<Rightarrow> genai \<Rightarrow> string \<Rightarrow> string \<Rightarrow> int \<Rightarrow> pyfloat \<Rightarrow> outcome \<times> call list" where
  "strategy_responses rt g model_name prompt max_output_tokens temperature =
     (case responses g of
        None \<Rightarrow> (Passed, [])
      | Some ns \<Rightarrow>
          (case responses_create ns of
             None \<Rightarrow> (Passed, [])
           | Some f \<Rightarrow>
               (case responses_create_call f model_name prompt max_output_tokens temperature of
                  (Inl e, calls) \<Rightarrow> (Raised e, calls)
                | (Inr resp, calls) \<Rightarrow>
                    (case parse_response_text rt resp of
                       Inl e \<Rightarrow> (Raised e, calls)
                     | Inr v \<Rightarrow> (Returned v, calls)))))"

definition strategy_create :: "runtime \<Rightarrow> genai \<Rightarrow> string \<Rightarrow> string \<Rightarrow> outcome \<times> call list" where
  "strategy_create rt g model_name prompt =
     (case create g of
        None \<Rightarrow> (Passed, [])
      | Some f \<Rightarrow>
          (case f model_name prompt of
             Inl e \<Rightarrow> (Raised e, [Create model_name prompt])
           | Inr resp \<Rightarrow>
               (case parse_response_text rt resp of
                  Inl e \<Rightarrow> (Raised e, [Create model_name prompt])
                | Inr v \<Rightarrow> (Returned v, [Create model_name prompt]))))"

text \<open>\<^verbatim>\<open>except Exception as e: last_exc = e\<close>, after a block with the given outcome.\<close>

definition update_last :: "outcome \<Rightarrow> exc option \<Rightarrow> exc option" where
  "update_last r last_exc = (case r of Raised e \<Rightarrow> Some e | _ \<Rightarrow> last_exc)"

text \<open>An exception object is true, so \<^verbatim>\<open>last_exc or 'Unknown error'\<close> is it unless it is \<^verbatim>\<open>None\<close>.\<close>

definition all_failed :: "exc option \<Rightarrow> exc" where
  "all_failed last_exc =
     Exc RuntimeError
       (''All generation attempts failed. Last error: '' @
        (case last_exc of Some e \<Rightarrow> message e | None \<Rightarrow> ''Unknown error''))"

definition generate_text_with_model ::
  "runtime \<Rightarrow> genai \<Rightarrow> string \<Rightarrow> string \<Rightarrow> int \<Rightarrow> pyfloat \<Rightarrow> (exc + pyval) \<times> call list" where
  "generate_text_with_model rt g model_name prompt max_output_tokens temperature =
     (case strategy_generate_text rt g model_name prompt max_output_tokens temperature of
        (Returned v, c1) \<Rightarrow> (Inr v, c1)
      | (r1, c1) \<Rightarrow>
     (case strategy_generate rt g model_name prompt max_output_tokens temperature of
        (Returned v, c2) \<Rightarrow> (Inr v, c1 @ c2)
      | (r2, c2) \<Rightarrow>
     (case strategy_responses rt g model_name prompt max_output_tokens temperature of
        (Returned v, c3) \<Rightarrow> (Inr v, c1 @ c2 @ c3)
      | (r3, c3) \<Rightarrow>
     (case strategy_create rt g model_name prompt of
        (Returned v, c4) \<Rightarrow> (Inr v, c1 @ c2 @ c3 @ c4)
      | (r4, c4) \<Rightarrow>
          (Inl (all_failed (update_last r4 (update_last r3 (update_last r2 (update_last r1 None))))),
           c1 @ c2 @ c3 @ c4)))))"

section \<open>HTTP routes\<close>

text \<open>
  A response is a status and the mapping given to \<^verbatim>\<open>jsonify\<close>. \<^verbatim>\<open>jsonify\<close> raises when
  the encoder does: never on \<^verbatim>\<open>None\<close>, booleans, floats and strings, on a container when it
  does on an element, and on an integer or an instance of another class as the runtime
  says. An instance of a class derived from a builtin type is encoded as that builtin value.
\<close>

record http_response =
  status :: nat
  body :: "(string \<times> pyval) list"

fun first_some :: "'a option list \<Rightarrow> 'a option" where
  "first_some [] = None"
| "first_some (None # rest) = first_some rest"
| "first_some (Some e # rest) = Some e"

fun json_error :: "runtime \<Rightarrow> pyval \<Rightarrow> exc option" where
  "json_error rt (PList xs) = first_some (map (json_error rt) xs)"
| "json_error rt (PTuple xs) = first_some (map (json_error rt) xs)"
| "json_error rt (PDict d) = first_some (map (\<lambda>kv. json_error rt (snd kv)) d)"
| "json_error rt (PObj c attrs (Some b)) = json_error rt b"
| "json_error rt (PObj c attrs None) = json_default rt (PObj c attrs None)"
| "json_error rt (PInt i) = json_default rt (PInt i)"
| "json_error rt v = None"

definition jsonify :: "runtime \<Rightarrow> (string \<times> pyval) list \<Rightarrow> nat \<Rightarrow> exc + http_response" where
  "jsonify rt b st =
     (case json_error rt (PDict b) of
        Some e \<Rightarrow> Inl e
      | None \<Rightarrow> Inr \<lparr>status = st, body = b\<rparr>)"

text \<open>
  \<^verbatim>\<open>payload = request.json or {}\<close> and \<^verbatim>\<open>payload.get("prompt", "").strip()\<close>, for a request
  whose body parses to the JSON value given. Both calls raise
  \<^verbatim>\<open>AttributeError\<close> on a value of another type, and no handler of the routes catches it.
\<close>

definition request_prompt :: "pyval \<Rightarrow> exc + string" where
  "request_prompt json =
     (let payload = (if truthy json then json else PDict []) in
      case as_dict payload of
        None \<Rightarrow> Inl (no_attribute payload ''get'')
      | Some d \<Rightarrow>
          (let p = (case map_of d ''prompt'' of None \<Rightarrow> PStr [] | Some v \<Rightarrow> v) in
           case as_str p of
             None \<Rightarrow> Inl (no_attribute p ''strip'')
           | Some s \<Rightarrow> Inr (strip s)))"

text \<open>The literal \<^verbatim>\<open>0.2\<close>: the double nearest to one fifth.\<close>

definition temperature_default :: pyfloat where
  "temperature_default = Finite 3602879701896397 (- 54)"

text \<open>
  \<^verbatim>\<open>POST /api/generate\<close>. The result is the response or the exception that leaves the
  function, and the upstream calls made. The call of the logger is left out.
\<close>

definition generate_route :: "runtime \<Rightarrow> genai \<Rightarrow> pyval \<Rightarrow> (exc + http_response) \<times> call list" where
  "generate_route rt g json =
     (case request_prompt json of
        Inl e \<Rightarrow> (Inl e, [])
      | Inr prompt \<Rightarrow>
          if prompt = [] then
            (jsonify rt [(''ok'', PBool False), (''error'', PStr ''Missing prompt in JSON body.'')] 400,
             [])
          else
            (case choose_model g None of
               (Inl e, c0) \<Rightarrow>
                 (jsonify rt
                    [(''ok'', PBool False),
                     (''error'', PStr (''Model selection failed: '' @ message e))] 500,
                  c0)
             | (Inr model_name, c0) \<Rightarrow>
                 (case generate_text_with_model rt g model_name prompt 256 temperature_default of
                    (Inl e, c1) \<Rightarrow>
                      (jsonify rt [(''ok'', PBool False), (''error'', PStr (message e))] 500, c0 @ c1)
                  | (Inr output_text, c1) \<Rightarrow>
                      (case jsonify rt
                              [(''ok'', PBool True), (''model_used'', PStr model_name),
                               (''output'', output_text)] 200 of
                         Inr r \<Rightarrow> (Inr r, c0 @ c1)
                       | Inl e \<Rightarrow>
                           (jsonify rt [(''ok'', PBool False), (''error'', PStr (message e))] 500,
                            c0 @ c1)))))"

subsection \<open>\<^verbatim>\<open>POST /api/debug-generate\<close>\<close>

text \<open>
  \<^verbatim>\<open>try_call(name, fn)\<close>, given what calling \<^verbatim>\<open>fn\<close> does. The preview is built inside the
  \<^verbatim>\<open>try\<close>, so an exception of \<^verbatim>\<open>str(out)\<close> gives the record of a failure too.
\<close>

definition failure_record :: "runtime \<Rightarrow> string \<Rightarrow> exc \<Rightarrow> (string \<times> pyval) list" where
  "failure_record rt meth e =
     [(''method'', PStr meth), (''ok'', PBool False), (''error'', PStr (repr_exc rt e))]"

definition try_call :: "runtime \<Rightarrow> string \<Rightarrow> exc + pyval \<Rightarrow> (string \<times> pyval) list" where
  "try_call rt meth r =
     (case r of
        Inl e \<Rightarrow> failure_record rt meth e
      | Inr out \<Rightarrow>
          (case as_str out of
             Some s \<Rightarrow>
               [(''method'', PStr meth), (''ok'', PBool True),
                (''output_preview'', PStr (take 500 s))]
           | None \<Rightarrow>
               (case str_value rt out of
                  Inr s \<Rightarrow>
                    [(''method'', PStr meth), (''ok'', PBool True), (''output_preview'', PStr s)]
                | Inl e \<Rightarrow> failure_record rt meth e)))"

text \<open>The four functions handed to \<^verbatim>\<open>try_call\<close>.\<close>

definition debug_generate_text ::
  "runtime \<Rightarrow> genai \<Rightarrow> string \<Rightarrow> string \<Rightarrow> (exc + pyval) \<times> call list" where
  "debug_generate_text rt g model_name prompt =
     (case generate_text g of
        None \<Rightarrow> (Inl (Exc Exception ''attribute missing''), [])
      | Some f \<Rightarrow>
          (case f model_name prompt 128 temperature_default of
             Inl e \<Rightarrow> (Inl e, [GenerateText model_name prompt 128 temperature_default])
           | Inr resp \<Rightarrow>
               (parse_response_text rt resp,
                [GenerateText model_name prompt 128 temperature_default])))"

definition debug_generate_plain ::
  "runtime \<Rightarrow> genai \<Rightarrow> string \<Rightarrow> string \<Rightarrow> (exc + pyval) \<times> call list" where
  "debug_generate_plain rt g model_name prompt =
     (case generate g of
        None \<Rightarrow> (Inl (Exc Exception ''attribute missing''), [])
      | Some f \<Rightarrow>
          (case f model_name prompt 128 temperature_default of
             Inl e \<Rightarrow> (Inl e, [Generate model_name prompt 128 temperature_default])
           | Inr resp \<Rightarrow>
               (parse_response_text rt resp, [Generate model_name prompt 128 temperature_default])))"

definition try_responses ::
  "runtime \<Rightarrow> genai \<Rightarrow> string \<Rightarrow> string \<Rightarrow> (exc + pyval) \<times> call list" where
  "try_responses rt g model_name prompt =
     (case responses g of
        None \<Rightarrow> (Inl (Exc Exception ''responses.create missing''), [])
      | Some ns \<Rightarrow>
          (case responses_create ns of
             None \<Rightarrow> (Inl (Exc Exception ''responses.create missing''), [])
           | Some f \<Rightarrow>
               (case responses_create_call f model_name prompt 128 temperature_default of
                  (Inl e, calls) \<Rightarrow> (Inl e, calls)
                | (Inr r, calls) \<Rightarrow> (parse_response_text rt r, calls))))"

definition debug_create ::
  "runtime \<Rightarrow> genai \<Rightarrow> string \<Rightarrow> string \<Rightarrow> (exc + pyval) \<times> call list" where
  "debug_create rt g model_name prompt =
     (case create g of
        None \<Rightarrow> (Inl (Exc Exception ''attribute missing''), [])
      | Some f \<Rightarrow>
          (case f model_name prompt of
             Inl e \<Rightarrow> (Inl e, [Create model_name prompt])
           | Inr resp \<Rightarrow> (parse_response_text rt resp, [Create model_name prompt])))"

definition debug_generate :: "runtime \<Rightarrow> genai \<Rightarrow> pyval \<Rightarrow> (exc + http_response) \<times> call list" where
  "debug_generate rt g json =
     (case request_prompt json of
        Inl e \<Rightarrow> (Inl e, [])
      | Inr p \<Rightarrow>
          (let prompt = (if p \<noteq> [] then p else ''Hello debug'') in
           case choose_model g None of
             (Inl e, c0) \<Rightarrow>
               (jsonify rt
                  [(''ok'', PBool False), (''stage'', PStr ''choose_model''),
                   (''error'', PStr (message e))] 500,
                c0)
           | (Inr model_name, c0) \<Rightarrow>
               (case debug_generate_text rt g model_name prompt of (r1, c1) \<Rightarrow>
                case debug_generate_plain rt g model_name prompt of (r2, c2) \<Rightarrow>
                case try_responses rt g model_name prompt of (r3, c3) \<Rightarrow>
                case debug_create rt g model_name prompt of (r4, c4) \<Rightarrow>
                  (jsonify rt
                     [(''ok'', PBool True),
                      (''debug'',
                       PDict
                         [(''model_used'', PStr model_name),
                          (''attempts'',
                           PList
                             [PDict (try_call rt ''genai.generate_text'' r1),
                              PDict (try_call rt ''genai.generate'' r2),
                              PDict (try_call rt ''genai.responses.create'' r3),
                              PDict (try_call rt ''genai.create'' r4)])])] 200,
                   c0 @ c1 @ c2 @ c3 @ c4))))"

section \<open>Notions used to state the properties\<close>

text \<open>
  The properties of the invoker are stated over the client alone. These abbreviations only
  shorten the statements.

  What the \<^verbatim>\<open>try\<close> block around an upstream call gets from the call: the exception of a call
  that raises, and otherwise what the normalizer makes of the answer.
\<close>

abbreviation normalized :: "runtime \<Rightarrow> exc + pyval \<Rightarrow> exc + pyval" where
  "normalized rt res \<equiv> (case res of Inl e \<Rightarrow> Inl e | Inr resp \<Rightarrow> parse_response_text rt resp)"

text \<open>\<^verbatim>\<open>genai.responses.create\<close>, when the client has both the namespace and the function.\<close>

abbreviation responses_function ::
  "genai \<Rightarrow> (string \<Rightarrow> prompt_kw \<Rightarrow> int \<Rightarrow> pyfloat \<Rightarrow> exc + pyval) option" where
  "responses_function g \<equiv> (case responses g of None \<Rightarrow> None | Some ns \<Rightarrow> responses_create ns)"

text \<open>The call with \<^verbatim>\<open>input=\<close> raises a \<^verbatim>\<open>TypeError\<close>.\<close>

abbreviation rejects_input ::
  "(string \<Rightarrow> prompt_kw \<Rightarrow> int \<Rightarrow> pyfloat \<Rightarrow> exc + pyval) \<Rightarrow>
     string \<Rightarrow> string \<Rightarrow> int \<Rightarrow> pyfloat \<Rightarrow> bool" where
  "rejects_input c m p t f \<equiv>
     (case c m (Input p) t f of Inl e \<Rightarrow> cls e = TypeError | Inr resp \<Rightarrow> False)"

text \<open>
  For each of the four strategies, in order: \<open>None\<close> when the client lacks the function, and
  otherwise the exception raised or the normalized answer of its call (for
  \<^verbatim>\<open>responses.create\<close>, of the call with \<^verbatim>\<open>prompt=\<close> when the one with \<^verbatim>\<open>input=\<close> was rejected).
\<close>

abbreviation client_attempts ::
  "runtime \<Rightarrow> genai \<Rightarrow> string \<Rightarrow> string \<Rightarrow> int \<Rightarrow> pyfloat \<Rightarrow> (exc + pyval) option list" where
  "client_attempts rt g m p t f \<equiv>
     [map_option (\<lambda>fn. normalized rt (fn m p t f)) (generate_text g),
      map_option (\<lambda>fn. normalized rt (fn m p t f)) (generate g),
      map_option
        (\<lambda>c. normalized rt
                (if rejects_input c m p t f then c m (Prompt p) t f else c m (Input p) t f))
        (responses_function g),
      map_option (\<lambda>fn. normalized rt (fn m p)) (create g)]"

text \<open>The upstream calls that each strategy makes.\<close>

abbreviation client_calls ::
  "genai \<Rightarrow> string \<Rightarrow> string \<Rightarrow> int \<Rightarrow> pyfloat \<Rightarrow> call list list" where
  "client_calls g m p t f \<equiv>
     [case generate_text g of None \<Rightarrow> [] | Some fn \<Rightarrow> [GenerateText m p t f],
      case generate g of None \<Rightarrow> [] | Some fn \<Rightarrow> [Generate m p t f],
      case responses_function g of
        None \<Rightarrow> []
      | Some c \<Rightarrow>
          if rejects_input c m p t f
          then [ResponsesCreate m (Input p) t f, ResponsesCreate m (Prompt p) t f]
          else [ResponsesCreate m (Input p) t f],
      case create g of None \<Rightarrow> [] | Some fn \<Rightarrow> [Create m p]]"

text \<open>The exceptions among a sequence of attempts, in order.\<close>

fun raised_errors :: "(exc + pyval) option list \<Rightarrow> exc list" where
  "raised_errors [] = []"
| "raised_errors (Some (Inl e) # rest) = e # raised_errors rest"
| "raised_errors (Some (Inr v) # rest) = raised_errors rest"
| "raised_errors (None # rest) = raised_errors rest"

text \<open>The outcome of a block of the invoker, read from the attempt of its strategy.\<close>

fun outcome_of :: "(exc + pyval) option \<Rightarrow> outcome" where
  "outcome_of None = Passed"
| "outcome_of (Some (Inl e)) = Raised e"
| "outcome_of (Some (Inr v)) = Returned v"

text \<open>A field of a response body is populated: the key is there and its value is not \<^verbatim>\<open>None\<close>.\<close>

definition populated :: "string \<Rightarrow> (string \<times> pyval) list \<Rightarrow> bool" where
  "populated k b = (case map_of b k of None \<Rightarrow> False | Some v \<Rightarrow> v \<noteq> PNone)"

text \<open>The output previews of the attempt records in a response of the debug route.\<close>

definition output_previews :: "exc + http_response \<Rightarrow> string list" where
  "output_previews r =
     (case r of
        Inl e \<Rightarrow> []
      | Inr resp \<Rightarrow>
          (case map_of (body resp) ''debug'' of
             Some (PDict dbg) \<Rightarrow>
               (case map_of dbg ''attempts'' of
                  Some (PList attempts) \<Rightarrow>
                    concat (map (\<lambda>a. case a of
                                   PDict rec \<Rightarrow>
                                     (case map_of rec ''output_preview'' of
                                        Some (PStr s) \<Rightarrow> [s]
                                      | _ \<Rightarrow> [])
                                 | _ \<Rightarrow> []) attempts)
                | _ \<Rightarrow> [])
           | _ \<Rightarrow> []))"

section \<open>An example runtime and example clients\<close>

text \<open>
  The example runtime is a Python interpreter without a limit on the digits of an integer,
  in which every class of the examples defines \<^verbatim>\<open>__str__\<close> and \<^verbatim>\<open>__repr__\<close> to raise
  \<^verbatim>\<open>RuntimeError("no string form")\<close>.

  \<open>example_repr\<close> is \<^verbatim>\<open>repr\<close> on \<^verbatim>\<open>None\<close>, booleans, integers, strings of printable ASCII
  characters other than the single quote and the backslash, instances, and lists, tuples and
  mappings of these (a mapping listed with distinct keys). Floats and other strings are not
  covered: there it raises \<open>not_covered\<close>, and no example applies it to them.
\<close>

fun join_comma :: "string list \<Rightarrow> string" where
  "join_comma [] = []"
| "join_comma [s] = s"
| "join_comma (s # t # rest) = s @ '', '' @ join_comma (t # rest)"

fun dec_nat :: "nat \<Rightarrow> string" where
  "dec_nat n =
     (if n < 10 then [char_of (48 + n)] else dec_nat (n div 10) @ [char_of (48 + n mod 10)])"

declare dec_nat.simps [simp del]

definition plain_char :: "char \<Rightarrow> bool" where
  "plain_char c = (let n = (of_char c :: nat) in 32 \<le> n \<and> n \<le> 126 \<and> n \<noteq> 39 \<and> n \<noteq> 92)"

definition not_covered :: exc where
  "not_covered = Exc (OtherError ''NotImplementedError'') ''not covered by the example runtime''"

fun collect :: "(exc + string) list \<Rightarrow> exc + string list" where
  "collect [] = Inr []"
| "collect (Inl e # rest) = Inl e"
| "collect (Inr s # rest) = (case collect rest of Inl e \<Rightarrow> Inl e | Inr ss \<Rightarrow> Inr (s # ss))"

fun example_repr :: "pyval \<Rightarrow> exc + string" where
  "example_repr PNone = Inr ''None''"
| "example_repr (PBool b) = Inr (if b then ''True'' else ''False'')"
| "example_repr (PInt i) = Inr (if i < 0 then ''-'' @ dec_nat (nat (- i)) else dec_nat (nat i))"
| "example_repr (PFloat x) = Inl not_covered"
| "example_repr (PStr s) = (if list_all plain_char s then Inr (quoted s) else Inl not_covered)"
| "example_repr (PList xs) =
     (case collect (map example_repr xs) of
        Inl e \<Rightarrow> Inl e
      | Inr ss \<Rightarrow> Inr (''['' @ join_comma ss @ '']''))"
| "example_repr (PTuple xs) =
     (case collect (map example_repr xs) of
        Inl e \<Rightarrow> Inl e
      | Inr ss \<Rightarrow> Inr (case ss of [s] \<Rightarrow> ''('' @ s @ '',)'' | _ \<Rightarrow> ''('' @ join_comma ss @ '')''))"
| "example_repr (PDict d) =
     (case collect
             (map (\<lambda>kv. case example_repr (snd kv) of
                           Inl e \<Rightarrow> Inl e
                         | Inr s \<Rightarrow>
                             if list_all plain_char (fst kv)
                             then Inr (quoted (fst kv) @ '': '' @ s)
                             else Inl not_covered) d) of
        Inl e \<Rightarrow> Inl e
      | Inr ss \<Rightarrow> Inr (''{'' @ join_comma ss @ ''}''))"
| "example_repr (PObj c attrs b) = Inl (Exc RuntimeError ''no string form'')"

text \<open>\<^verbatim>\<open>str\<close> is \<^verbatim>\<open>repr\<close> but on a string, which it gives back.\<close>

definition example_str :: "pyval \<Rightarrow> exc + string" where
  "example_str v = (case v of PStr s \<Rightarrow> Inr s | _ \<Rightarrow> example_repr v)"

fun class_name :: "exc_class \<Rightarrow> string" where
  "class_name TypeError = ''TypeError''"
| "class_name RuntimeError = ''RuntimeError''"
| "class_name AttributeError = ''AttributeError''"
| "class_name KeyError = ''KeyError''"
| "class_name IndexError = ''IndexError''"
| "class_name Exception = ''Exception''"
| "class_name (OtherError c) = c"

text \<open>
  \<^verbatim>\<open>repr\<close> of an exception made with its message as only argument, for the messages of the
  examples (printable ASCII without quote or backslash).
\<close>

definition example_runtime :: runtime where
  "example_runtime =
     \<lparr>str_value = example_str,
      repr_exc = (\<lambda>e. class_name (cls e) @ ''('' @ quoted (message e) @ '')''),
      json_default =
        (\<lambda>v. case v of
                PInt i \<Rightarrow> None
              | _ \<Rightarrow>
                  Some (Exc TypeError
                         (''Object of type '' @ type_name v @ '' is not JSON serializable'')))\<rparr>"

text \<open>Descriptors whose string form is not their name.\<close>

definition model_a :: model_descriptor where
  "model_a =
     \<lparr>name = Some ''Model-A2'', displayName = Some ''A'', capabilities = None,
      str_repr = ''Model(A2)''\<rparr>"

definition model_b :: model_descriptor where
  "model_b =
     \<lparr>name = Some ''Model-B'', displayName = None, capabilities = Some [''Chat''],
      str_repr = ''Model(B)''\<rparr>"

text \<open>
  A client whose first generation function raises and whose second answers; the last two
  would answer too.
\<close>

definition client_second :: genai where
  "client_second =
     \<lparr>list_models = Inr [model_a, model_b],
      generate_text = Some (\<lambda>m p t f. Inl (Exc RuntimeError ''quota exceeded'')),
      generate = Some (\<lambda>m p t f. Inr (PDict [(''output'', PStr ''hello'')])),
      responses =
        Some \<lparr>responses_create = Some (\<lambda>m kw t f. Inr (PStr ''from responses''))\<rparr>,
      create = Some (\<lambda>m p. Inr (PStr ''from create''))\<rparr>"

text \<open>
  A client with no \<^verbatim>\<open>generate\<close> and no \<^verbatim>\<open>create\<close>, whose other functions raise;
  \<^verbatim>\<open>responses.create\<close> rejects the \<^verbatim>\<open>input\<close> keyword with a \<^verbatim>\<open>TypeError\<close>.
\<close>

definition client_failing :: genai where
  "client_failing =
     \<lparr>list_models = Inr [model_a, model_b],
      generate_text = Some (\<lambda>m p t f. Inl (Exc RuntimeError ''first'')),
      generate = None,
      responses =
        Some \<lparr>responses_create =
                Some (\<lambda>m kw t f.
                        case kw of
                          Input s \<Rightarrow> Inl (Exc TypeError ''unexpected keyword argument'')
                        | Prompt s \<Rightarrow> Inl (Exc (OtherError ''ValueError'') ''third''))\<rparr>,
      create = None\<rparr>"

text \<open>A client whose first and last generation functions raise and that has no other.\<close>

definition client_first_fourth :: genai where
  "client_first_fourth =
     \<lparr>list_models = Inr [model_a, model_b],
      generate_text = Some (\<lambda>m p t f. Inl (Exc RuntimeError ''first'')),
      generate = None,
      responses = None,
      create = Some (\<lambda>m p. Inl (Exc RuntimeError ''fourth''))\<rparr>"

text \<open>A client that has only \<^verbatim>\<open>create\<close>, which answers.\<close>

definition client_create_only :: genai where
  "client_create_only =
     \<lparr>list_models = Inr [model_a, model_b],
      generate_text = None,
      generate = None,
      responses = None,
      create = Some (\<lambda>m p. Inr (PStr ''from create''))\<rparr>"

text \<open>
  An instance with no attribute. A client whose \<^verbatim>\<open>generate_text\<close> answers with it, so that
  the normalizer raises, and whose \<^verbatim>\<open>generate\<close> answers with a string.
\<close>

definition unprintable :: pyval where
  "unprintable = PObj ''Unprintable'' [] None"

definition client_unprintable :: genai where
  "client_unprintable =
     \<lparr>list_models = Inr [model_a, model_b],
      generate_text = Some (\<lambda>m p t f. Inr unprintable),
      generate = Some (\<lambda>m p t f. Inr (PStr ''plain'')),
      responses = None,
      create = None\<rparr>"

text \<open>A client whose model listing raises, and one whose listing is empty.\<close>

definition client_unlisted :: genai where
  "client_unlisted = client_second\<lparr>list_models := Inl (Exc (OtherError ''ConnectionError'') ''offline'')\<rparr>"

definition client_empty :: genai where
  "client_empty = client_second\<lparr>list_models := Inr []\<rparr>"

text \<open>
  A client whose only generation function answers with a first candidate whose output is
  \<^verbatim>\<open>None\<close>, and one where that output is a list of 126 \<^verbatim>\<open>None\<close>.
\<close>

definition client_null :: genai where
  "client_null =
     \<lparr>list_models = Inr [model_b],
      generate_text =
        Some (\<lambda>m p t f. Inr (PDict [(''candidates'', PList [PDict [(''output'', PNone)]])])),
      generate = None,
      responses = None,
      create = None\<rparr>"

definition client_verbose :: genai where
  "client_verbose =
     \<lparr>list_models = Inr [model_b],
      generate_text =
        Some (\<lambda>m p t f.
                Inr (PDict [(''candidates'', PList [PDict [(''output'', PList (replicate 126 PNone))]])])),
      generate = None,
      responses = None,
      create = None\<rparr>"

text \<open>A response that has a \<^verbatim>\<open>text\<close> attribute and is a mapping with another \<^verbatim>\<open>"output"\<close>.\<close>

definition response_both :: pyval where
  "response_both =
     PObj ''Reply'' [(''text'', Inr (PStr ''from text''))] (Some (PDict [(''output'', PStr ''from output'')]))"

section \<open>Properties of the response normalizer\<close>

lemmas parse_defs = parse_response_text_def return_str_def parse_rules_def rule_text_def
  rules_dict_def rule_output_key_def rule_outputs_key_def rule_candidates_key_def
  rule_candidates_attr_def rule_outputs_attr_def hasattr_def getattr_def no_attribute_def seq_def
  contains_key_def getitem_def first_item_def is_str_def








text \<open>The normalizer raises exactly when no rule returns and \<^verbatim>\<open>str\<close> of the response raises.\<close>

lemma parse_response_text_raises:
  "parse_response_text rt resp = Inl e \<longleftrightarrow>
     (\<forall>w. parse_rules resp \<noteq> Returned w) \<and> str_value rt resp = Inl e"
  by (cases "parse_rules resp"; cases "str_value rt resp")
    (simp_all add: parse_response_text_def return_str_def)




text \<open>
  C9: a response whose \<^verbatim>\<open>text\<close> attribute is a string is normalized to that attribute, whatever
  else the response is; in particular when it is also a mapping with a string under
  \<^verbatim>\<open>"output"\<close>.
\<close>

theorem text_field_first:
  "getattr resp ''text'' = Inr t \<Longrightarrow> is_str t \<Longrightarrow> parse_response_text rt resp = Inr t"
  by (simp add: parse_response_text_def parse_rules_def rule_text_def hasattr_def seq_def)

theorem text_field_first_witness:
  "getattr response_both ''text'' = Inr (PStr ''from text'') \<and> is_str (PStr ''from text'') \<and>
   as_dict response_both = Some [(''output'', PStr ''from output'')] \<and>
   parse_response_text example_runtime response_both = Inr (PStr ''from text'')"
proof -
  have a: "getattr response_both ''text'' = Inr (PStr ''from text'')"
    by (simp add: response_both_def getattr_def)
  have b: "is_str (PStr ''from text'')"
    by (simp add: is_str_def)
  show ?thesis
    using a b text_field_first [OF a b, of example_runtime] by (simp add: response_both_def)
qed

section \<open>Properties of the generation invoker\<close>

lemmas strategy_defs = strategy_generate_text_def strategy_generate_def strategy_responses_def
  strategy_create_def

text \<open>
  Each block of the invoker does what the attempt of its strategy says: it runs to its end
  when the function is missing, catches the exception of the call or of the normalizer, or
  returns the normalized answer; and it makes the calls of its strategy.
\<close>

lemma strategy_generate_text_eq:
  "strategy_generate_text rt g m p t f =
     (outcome_of (map_option (\<lambda>fn. normalized rt (fn m p t f)) (generate_text g)),
      case generate_text g of None \<Rightarrow> [] | Some fn \<Rightarrow> [GenerateText m p t f])"
  by (auto simp: strategy_generate_text_def split: option.splits sum.splits)

lemma strategy_generate_eq:
  "strategy_generate rt g m p t f =
     (outcome_of (map_option (\<lambda>fn. normalized rt (fn m p t f)) (generate g)),
      case generate g of None \<Rightarrow> [] | Some fn \<Rightarrow> [Generate m p t f])"
  by (auto simp: strategy_generate_def split: option.splits sum.splits)

lemma strategy_responses_eq:
  "strategy_responses rt g m p t f =
     (outcome_of
        (map_option
           (\<lambda>c. normalized rt
                   (if rejects_input c m p t f then c m (Prompt p) t f else c m (Input p) t f))
           (responses_function g)),
      case responses_function g of
        None \<Rightarrow> []
      | Some c \<Rightarrow>
          if rejects_input c m p t f
          then [ResponsesCreate m (Input p) t f, ResponsesCreate m (Prompt p) t f]
          else [ResponsesCreate m (Input p) t f])"
  by (auto simp: strategy_responses_def responses_create_call_def
      split: option.splits sum.splits prod.splits)

lemma strategy_create_eq:
  "strategy_create rt g m p =
     (outcome_of (map_option (\<lambda>fn. normalized rt (fn m p)) (create g)),
      case create g of None \<Rightarrow> [] | Some fn \<Rightarrow> [Create m p])"
  by (auto simp: strategy_create_def split: option.splits sum.splits)

lemma outcome_of_Returned: "outcome_of a = Returned v \<longleftrightarrow> a = Some (Inr v)"
  by (cases a rule: outcome_of.cases) simp_all

lemma invoker_first_return:
  assumes s1: "strategy_generate_text rt g m p t f = (outcome_of a1, k1)"
    and s2: "strategy_generate rt g m p t f = (outcome_of a2, k2)"
    and s3: "strategy_responses rt g m p t f = (outcome_of a3, k3)"
    and s4: "strategy_create rt g m p = (outcome_of a4, k4)"
    and i: "i < 4"
    and v: "[a1, a2, a3, a4] ! i = Some (Inr v)"
    and n: "\<forall>j<i. \<forall>w. [a1, a2, a3, a4] ! j \<noteq> Some (Inr w)"
  shows "generate_text_with_model rt g m p t f =
     (Inr v, concat (take (Suc i) [k1, k2, k3, k4]))"
proof -
  from i have "i = 0 \<or> i = 1 \<or> i = 2 \<or> i = 3" by auto
  then show ?thesis
  proof (elim disjE)
    assume "i = 0"
    with v s1 show ?thesis
      by (simp add: generate_text_with_model_def)
  next
    assume i: "i = 1"
    with v n have "a2 = Some (Inr v)" "\<forall>w. a1 \<noteq> Some (Inr w)"
      by simp_all
    with i s1 s2 show ?thesis
      by (cases a1 rule: outcome_of.cases) (simp_all add: generate_text_with_model_def)
  next
    assume i: "i = 2"
    with v n have "a3 = Some (Inr v)" "\<forall>w. a1 \<noteq> Some (Inr w)" "\<forall>w. a2 \<noteq> Some (Inr w)"
      by (auto simp: All_less_Suc eval_nat_numeral)
    with i s1 s2 s3 show ?thesis
      by (cases a1 rule: outcome_of.cases; cases a2 rule: outcome_of.cases)
        (simp_all add: generate_text_with_model_def eval_nat_numeral)
  next
    assume i: "i = 3"
    with v n have "a4 = Some (Inr v)" "\<forall>w. a1 \<noteq> Some (Inr w)" "\<forall>w. a2 \<noteq> Some (Inr w)"
        "\<forall>w. a3 \<noteq> Some (Inr w)"
      by (auto simp: All_less_Suc eval_nat_numeral)
    with i s1 s2 s3 s4 show ?thesis
      by (cases a1 rule: outcome_of.cases; cases a2 rule: outcome_of.cases;
          cases a3 rule: outcome_of.cases)
        (simp_all add: generate_text_with_model_def eval_nat_numeral)
  qed
qed

lemma invoker_no_return:
  assumes s1: "strategy_generate_text rt g m p t f = (outcome_of a1, k1)"
    and s2: "strategy_generate rt g m p t f = (outcome_of a2, k2)"
    and s3: "strategy_responses rt g m p t f = (outcome_of a3, k3)"
    and s4: "strategy_create rt g m p = (outcome_of a4, k4)"
    and n: "\<forall>a \<in> set [a1, a2, a3, a4]. \<forall>w. a \<noteq> Some (Inr w)"
  shows "generate_text_with_model rt g m p t f =
     (Inl (Exc RuntimeError
            (''All generation attempts failed. Last error: '' @
             (case raised_errors [a1, a2, a3, a4] of
                [] \<Rightarrow> ''Unknown error''
              | e # es \<Rightarrow> message (last (e # es))))),
      concat [k1, k2, k3, k4])"
proof -
  from n have "\<forall>w. a1 \<noteq> Some (Inr w)" "\<forall>w. a2 \<noteq> Some (Inr w)" "\<forall>w. a3 \<noteq> Some (Inr w)"
      "\<forall>w. a4 \<noteq> Some (Inr w)"
    by simp_all
  with s1 s2 s3 s4 show ?thesis
    by (cases a1 rule: outcome_of.cases; cases a2 rule: outcome_of.cases;
        cases a3 rule: outcome_of.cases; cases a4 rule: outcome_of.cases)
      (simp_all add: generate_text_with_model_def all_failed_def update_last_def)
qed

text \<open>
  C2: a strategy completes when the client has its function and neither the call nor the
  normalizing of the answer raises (both run in the same \<^verbatim>\<open>try\<close>). The first strategy that
  completes, in the order generate_text, generate, responses.create, create, decides the
  result: the invoker returns its normalized answer, and the upstream calls made are those of
  the strategies up to it and no other. In particular, when \<^verbatim>\<open>generate_text\<close> raises and
  \<^verbatim>\<open>generate\<close> answers, the result is the normalized answer of \<^verbatim>\<open>generate\<close> and the only two
  calls made are these.
\<close>

theorem first_success_wins:
  "(\<forall>i v. i < 4 \<and> client_attempts rt g m p t f ! i = Some (Inr v) \<and>
        (\<forall>j<i. \<forall>w. client_attempts rt g m p t f ! j \<noteq> Some (Inr w)) \<longrightarrow>
      generate_text_with_model rt g m p t f =
        (Inr v, concat (take (Suc i) (client_calls g m p t f)))) \<and>
   (\<forall>f1 f2 e r v. generate_text g = Some f1 \<and> f1 m p t f = Inl e \<and>
        generate g = Some f2 \<and> f2 m p t f = Inr r \<and> parse_response_text rt r = Inr v \<longrightarrow>
      generate_text_with_model rt g m p t f =
        (Inr v, [GenerateText m p t f, Generate m p t f]))"
proof (intro conjI allI impI)
  fix i v
  assume "i < 4 \<and> client_attempts rt g m p t f ! i = Some (Inr v) \<and>
        (\<forall>j<i. \<forall>w. client_attempts rt g m p t f ! j \<noteq> Some (Inr w))"
  then show "generate_text_with_model rt g m p t f =
        (Inr v, concat (take (Suc i) (client_calls g m p t f)))"
    using invoker_first_return [OF strategy_generate_text_eq [of rt g m p t f]
        strategy_generate_eq [of rt g m p t f] strategy_responses_eq [of rt g m p t f]
        strategy_create_eq [of rt g m p], where i = i and v = v]
    by blast
next
  fix f1 f2 e r v
  assume "generate_text g = Some f1 \<and> f1 m p t f = Inl e \<and>
        generate g = Some f2 \<and> f2 m p t f = Inr r \<and> parse_response_text rt r = Inr v"
  then show "generate_text_with_model rt g m p t f =
        (Inr v, [GenerateText m p t f, Generate m p t f])"
    by (simp add: generate_text_with_model_def strategy_generate_text_def strategy_generate_def)
qed

theorem first_success_wins_witness:
  "generate_text_with_model example_runtime client_second ''Model-B'' ''Hi'' 256 temperature_default =
     (Inr (PStr ''hello''),
      [GenerateText ''Model-B'' ''Hi'' 256 temperature_default,
       Generate ''Model-B'' ''Hi'' 256 temperature_default]) \<and>
   generate_text_with_model example_runtime client_create_only ''Model-B'' ''Hi'' 256
       temperature_default =
     (Inr (PStr ''from create''), [Create ''Model-B'' ''Hi'']) \<and>
   generate_text_with_model example_runtime client_unprintable ''Model-B'' ''Hi'' 256
       temperature_default =
     (Inr (PStr ''plain''),
      [GenerateText ''Model-B'' ''Hi'' 256 temperature_default,
       Generate ''Model-B'' ''Hi'' 256 temperature_default]) \<and>
   generate_text_with_model example_runtime client_null ''Model-B'' ''Hi'' 256 temperature_default =
     (Inr PNone, [GenerateText ''Model-B'' ''Hi'' 256 temperature_default]) \<and>
   generate_text_with_model example_runtime
       (client_second\<lparr>generate_text := None, generate := None\<rparr>)
       ''Model-B'' ''Hi'' 256 temperature_default =
     (Inr (PStr ''from responses''),
      [ResponsesCreate ''Model-B'' (Input ''Hi'') 256 temperature_default])"
proof -
  have a: "1 < (4::nat) \<and>
      client_attempts example_runtime client_second ''Model-B'' ''Hi'' 256 temperature_default ! 1
        = Some (Inr (PStr ''hello'')) \<and>
      (\<forall>j<1. \<forall>w. client_attempts example_runtime client_second ''Model-B'' ''Hi'' 256
          temperature_default ! j \<noteq> Some (Inr w))"
    by (simp add: client_second_def parse_defs example_runtime_def example_str_def)
  have b: "3 < (4::nat) \<and>
      client_attempts example_runtime client_create_only ''Model-B'' ''Hi'' 256
        temperature_default ! 3 = Some (Inr (PStr ''from create'')) \<and>
      (\<forall>j<3. \<forall>w. client_attempts example_runtime client_create_only ''Model-B'' ''Hi'' 256
          temperature_default ! j \<noteq> Some (Inr w))"
    by (simp add: client_create_only_def parse_defs example_runtime_def example_str_def
        All_less_Suc eval_nat_numeral)
  have c: "1 < (4::nat) \<and>
      client_attempts example_runtime client_unprintable ''Model-B'' ''Hi'' 256
        temperature_default ! 1 = Some (Inr (PStr ''plain'')) \<and>
      (\<forall>j<1. \<forall>w. client_attempts example_runtime client_unprintable ''Model-B'' ''Hi'' 256
          temperature_default ! j \<noteq> Some (Inr w))"
    by (simp add: client_unprintable_def unprintable_def parse_defs example_runtime_def
        example_str_def)
  have d: "0 < (4::nat) \<and>
      client_attempts example_runtime client_null ''Model-B'' ''Hi'' 256 temperature_default ! 0
        = Some (Inr PNone) \<and>
      (\<forall>j<0. \<forall>w. client_attempts example_runtime client_null ''Model-B'' ''Hi'' 256
          temperature_default ! j \<noteq> Some (Inr w))"
    by (simp add: client_null_def parse_defs)
  have e: "2 < (4::nat) \<and>
      client_attempts example_runtime (client_second\<lparr>generate_text := None, generate := None\<rparr>)
        ''Model-B'' ''Hi'' 256 temperature_default ! 2 = Some (Inr (PStr ''from responses'')) \<and>
      (\<forall>j<2. \<forall>w. client_attempts example_runtime
          (client_second\<lparr>generate_text := None, generate := None\<rparr>) ''Model-B'' ''Hi'' 256
          temperature_default ! j \<noteq> Some (Inr w))"
    by (simp add: client_second_def parse_defs example_runtime_def example_str_def
        All_less_Suc eval_nat_numeral)
  show ?thesis
    using first_success_wins [THEN conjunct1, rule_format, OF a]
      first_success_wins [THEN conjunct1, rule_format, OF b]
      first_success_wins [THEN conjunct1, rule_format, OF c]
      first_success_wins [THEN conjunct1, rule_format, OF d]
      first_success_wins [THEN conjunct1, rule_format, OF e]
    by (simp add: client_second_def client_create_only_def client_unprintable_def
        client_null_def eval_nat_numeral)
qed

text \<open>
  C6: when no strategy completes (for each, the client lacks the function, or its call or
  the normalizing of its answer raises), the invoker raises the \<^verbatim>\<open>RuntimeError\<close> "All
  generation attempts failed", whose text carries the message of the last exception raised
  and of no earlier one ("Unknown error" when the client has none of the functions).
\<close>

theorem all_strategies_failed:
  "(\<forall>a \<in> set (client_attempts rt g m p t f). \<forall>w. a \<noteq> Some (Inr w)) \<longrightarrow>
   generate_text_with_model rt g m p t f =
     (Inl (Exc RuntimeError
            (''All generation attempts failed. Last error: '' @
             (case raised_errors (client_attempts rt g m p t f) of
                [] \<Rightarrow> ''Unknown error''
              | e # es \<Rightarrow> message (last (e # es))))),
      concat (client_calls g m p t f))"
  using invoker_no_return [OF strategy_generate_text_eq [of rt g m p t f]
      strategy_generate_eq [of rt g m p t f] strategy_responses_eq [of rt g m p t f]
      strategy_create_eq [of rt g m p]]
  by blast

theorem all_strategies_failed_witness:
  "generate_text_with_model example_runtime client_first_fourth ''Model-B'' ''Hi'' 256
       temperature_default =
     (Inl (Exc RuntimeError ''All generation attempts failed. Last error: fourth''),
      [GenerateText ''Model-B'' ''Hi'' 256 temperature_default, Create ''Model-B'' ''Hi'']) \<and>
   generate_text_with_model example_runtime client_failing ''Model-B'' ''Hi'' 256 temperature_default =
     (Inl (Exc RuntimeError ''All generation attempts failed. Last error: third''),
      [GenerateText ''Model-B'' ''Hi'' 256 temperature_default,
       ResponsesCreate ''Model-B'' (Input ''Hi'') 256 temperature_default,
       ResponsesCreate ''Model-B'' (Prompt ''Hi'') 256 temperature_default]) \<and>
   generate_text_with_model example_runtime (client_create_only\<lparr>create := None\<rparr>) ''Model-B''
       ''Hi'' 256 temperature_default =
     (Inl (Exc RuntimeError ''All generation attempts failed. Last error: Unknown error''), []) \<and>
   generate_text_with_model example_runtime (client_unprintable\<lparr>generate := None\<rparr>) ''Model-B''
       ''Hi'' 256 temperature_default =
     (Inl (Exc RuntimeError ''All generation attempts failed. Last error: no string form''),
      [GenerateText ''Model-B'' ''Hi'' 256 temperature_default])"
proof -
  have a: "\<forall>a \<in> set (client_attempts example_runtime client_first_fourth ''Model-B'' ''Hi'' 256
      temperature_default). \<forall>w. a \<noteq> Some (Inr w)"
    by (simp add: client_first_fourth_def)
  have b: "\<forall>a \<in> set (client_attempts example_runtime client_failing ''Model-B'' ''Hi'' 256
      temperature_default). \<forall>w. a \<noteq> Some (Inr w)"
    by (simp add: client_failing_def)
  have c: "\<forall>a \<in> set (client_attempts example_runtime (client_create_only\<lparr>create := None\<rparr>)
      ''Model-B'' ''Hi'' 256 temperature_default). \<forall>w. a \<noteq> Some (Inr w)"
    by (simp add: client_create_only_def)
  have d: "\<forall>a \<in> set (client_attempts example_runtime (client_unprintable\<lparr>generate := None\<rparr>)
      ''Model-B'' ''Hi'' 256 temperature_default). \<forall>w. a \<noteq> Some (Inr w)"
    by (simp add: client_unprintable_def unprintable_def parse_defs example_runtime_def
        example_str_def)
  show ?thesis
    using all_strategies_failed [THEN mp, OF a] all_strategies_failed [THEN mp, OF b]
      all_strategies_failed [THEN mp, OF c] all_strategies_failed [THEN mp, OF d]
    by (simp add: client_first_fourth_def client_failing_def client_create_only_def
        client_unprintable_def unprintable_def parse_defs example_runtime_def example_str_def)
qed

text \<open>
  C7: when \<^verbatim>\<open>responses.create\<close> exists, the third strategy calls it with the \<^verbatim>\<open>input\<close>
  keyword first, and calls it again with the \<^verbatim>\<open>prompt\<close> keyword exactly when the first call
  raised a \<^verbatim>\<open>TypeError\<close>; the outcome of the strategy is that of the last call made.
\<close>

theorem responses_input_then_prompt:
  "responses g = Some ns \<and> responses_create ns = Some c \<longrightarrow>
     snd (strategy_responses rt g m p t f) =
       (if (\<exists>e. c m (Input p) t f = Inl e \<and> cls e = TypeError)
        then [ResponsesCreate m (Input p) t f, ResponsesCreate m (Prompt p) t f]
        else [ResponsesCreate m (Input p) t f]) \<and>
     fst (strategy_responses rt g m p t f) =
       (case (if (\<exists>e. c m (Input p) t f = Inl e \<and> cls e = TypeError)
              then c m (Prompt p) t f else c m (Input p) t f) of
          Inl e \<Rightarrow> Raised e
        | Inr resp \<Rightarrow>
            (case parse_response_text rt resp of Inl e \<Rightarrow> Raised e | Inr v \<Rightarrow> Returned v))"
  by (auto simp: strategy_responses_def responses_create_call_def split: sum.splits prod.splits)

theorem responses_input_then_prompt_witness:
  "snd (strategy_responses example_runtime client_failing ''Model-B'' ''Hi'' 256 temperature_default) =
     [ResponsesCreate ''Model-B'' (Input ''Hi'') 256 temperature_default,
      ResponsesCreate ''Model-B'' (Prompt ''Hi'') 256 temperature_default] \<and>
   snd (strategy_responses example_runtime client_second ''Model-B'' ''Hi'' 256 temperature_default) =
     [ResponsesCreate ''Model-B'' (Input ''Hi'') 256 temperature_default]"
  using responses_input_then_prompt [of client_failing
      "\<lparr>responses_create = Some (\<lambda>m kw t f. case kw of
                          Input s \<Rightarrow> Inl (Exc TypeError ''unexpected keyword argument'')
                        | Prompt s \<Rightarrow> Inl (Exc (OtherError ''ValueError'') ''third''))\<rparr>"
      "\<lambda>m kw t f. case kw of
                          Input s \<Rightarrow> Inl (Exc TypeError ''unexpected keyword argument'')
                        | Prompt s \<Rightarrow> Inl (Exc (OtherError ''ValueError'') ''third'')"
      example_runtime "''Model-B''" "''Hi''" 256 temperature_default]
    responses_input_then_prompt [of client_second
      "\<lparr>responses_create = Some (\<lambda>m kw t f. Inr (PStr ''from responses''))\<rparr>"
      "\<lambda>m kw t f. Inr (PStr ''from responses'')"
      example_runtime "''Model-B''" "''Hi''" 256 temperature_default]
  by (simp add: client_failing_def client_second_def)

section \<open>Properties of the model selector\<close>

lemma available_of_snoc:
  "available_of (xs @ [x]) = (available_of xs)(lower (name_or_str x) \<mapsto> x)"
  by (simp add: available_of_def)

lemma available_of_eq:
  "available_of models k =
     (if filter (\<lambda>m. lower (name_or_str m) = k) models = [] then None
      else Some (last (filter (\<lambda>m. lower (name_or_str m) = k) models)))"
proof (induction models rule: rev_induct)
  case Nil
  then show ?case by (simp add: available_of_def)
next
  case (snoc x xs)
  then show ?case by (simp add: available_of_snoc)
qed

lemma available_of_None:
  "available_of models k = None \<longleftrightarrow> \<not> list_ex (\<lambda>m. lower (name_or_str m) = k) models"
  by (simp add: available_of_eq list_ex_iff filter_empty_conv)

lemma first_preferred_find:
  "List.find (\<lambda>c. available (lower c) \<noteq> None) pl = Some cand \<Longrightarrow>
     first_preferred available pl = map_option name_or_str (available (lower cand))"
  by (induction pl) (auto split: option.splits if_splits)

lemma first_preferred_in:
  "first_preferred (available_of models) pl = Some n \<Longrightarrow> n \<in> name_or_str ` set models"
proof (induction pl)
  case Nil
  then show ?case by simp
next
  case (Cons c pl)
  show ?case
  proof (cases "available_of models (lower c)")
    case None
    with Cons show ?thesis by simp
  next
    case (Some m)
    then have f: "filter (\<lambda>m. lower (name_or_str m) = lower c) models \<noteq> []"
        and m: "m = last (filter (\<lambda>m. lower (name_or_str m) = lower c) models)"
      by (auto simp: available_of_eq split: if_splits)
    from f have "last (filter (\<lambda>m. lower (name_or_str m) = lower c) models)
        \<in> set (filter (\<lambda>m. lower (name_or_str m) = lower c) models)"
      by (rule last_in_set)
    then have "m \<in> set models" using m by simp
    with Some Cons.prems show ?thesis by auto
  qed
qed

lemma first_capable_in: "first_capable models = Some n \<Longrightarrow> n \<in> name_or_str ` set models"
  by (induction models) (auto simp: Let_def split: option.splits if_splits)

text \<open>
  The selection by the preferred list, in terms of the key under which a descriptor is
  filed: its lower-cased name, or its lower-cased string form when it has no name.
\<close>

lemma choose_model_by_key:
  "list_models g = Inr models \<and>
   List.find (\<lambda>c. list_ex (\<lambda>m. lower (name_or_str m) = lower c) models)
     (case pref of None \<Rightarrow> default_preferred | Some pl \<Rightarrow> pl) = Some cand \<longrightarrow>
   choose_model g pref =
     (Inr (name_or_str (last (filter (\<lambda>m. lower (name_or_str m) = lower cand) models))),
      [ListModels])"
proof
  let ?pl = "case pref of None \<Rightarrow> default_preferred | Some pl \<Rightarrow> pl"
  assume h: "list_models g = Inr models \<and>
   List.find (\<lambda>c. list_ex (\<lambda>m. lower (name_or_str m) = lower c) models) ?pl = Some cand"
  then have f: "List.find (\<lambda>c. available_of models (lower c) \<noteq> None) ?pl = Some cand"
    by (simp add: available_of_None)
  from h have ex: "list_ex (\<lambda>m. lower (name_or_str m) = lower cand) models"
    by (auto simp: find_Some_iff)
  then have fl: "filter (\<lambda>m. lower (name_or_str m) = lower cand) models \<noteq> []"
    by (simp add: list_ex_iff filter_empty_conv)
  from ex obtain m0 rest where ne: "models = m0 # rest"
    by (cases models) auto
  have "first_preferred (available_of models) ?pl =
      Some (name_or_str (last (filter (\<lambda>m. lower (name_or_str m) = lower cand) models)))"
  proof -
    have "available_of models (lower cand) =
        Some (last (filter (\<lambda>m. lower (name_or_str m) = lower cand) models))"
      using fl by (simp add: available_of_eq)
    with first_preferred_find [OF f] show ?thesis by simp
  qed
  with h ne show "choose_model g pref =
     (Inr (name_or_str (last (filter (\<lambda>m. lower (name_or_str m) = lower cand) models))),
      [ListModels])"
    by (simp add: choose_model_def get_models_list_def)
qed

text \<open>
  C4: every upstream descriptor having a name, when some entry of the preferred list (the
  built-in list when none is given) equals, after lower-casing both, the name of a
  descriptor, \<^verbatim>\<open>choose_model\<close> takes the earliest such entry and returns the name, in its
  upstream spelling, of the descriptor whose name matches it (of the last one listed, should
  several names differ in case only). The upstream list is then not empty.
\<close>

theorem choose_model_preferred:
  "list_models g = Inr models \<and> list_all (\<lambda>d. name d \<noteq> None) models \<and>
   List.find (\<lambda>c. list_ex (\<lambda>d. map_option lower (name d) = Some (lower c)) models)
     (case pref of None \<Rightarrow> default_preferred | Some pl \<Rightarrow> pl) = Some cand \<longrightarrow>
   (\<exists>n. name (last (filter (\<lambda>d. map_option lower (name d) = Some (lower cand)) models)) = Some n \<and>
      choose_model g pref = (Inr n, [ListModels]))"
proof
  let ?pl = "case pref of None \<Rightarrow> default_preferred | Some pl \<Rightarrow> pl"
  assume h: "list_models g = Inr models \<and> list_all (\<lambda>d. name d \<noteq> None) models \<and>
   List.find (\<lambda>c. list_ex (\<lambda>d. map_option lower (name d) = Some (lower c)) models) ?pl = Some cand"
  have key: "(lower (name_or_str d) = k) = (map_option lower (name d) = Some k)"
    if "d \<in> set models" for d k
    using that h by (auto simp: name_or_str_def list_all_iff split: option.splits)
  have ex: "list_ex (\<lambda>d. lower (name_or_str d) = k) models =
      list_ex (\<lambda>d. map_option lower (name d) = Some k) models" for k
    using key by (auto simp: list_ex_iff)
  have fl: "filter (\<lambda>d. lower (name_or_str d) = k) models =
      filter (\<lambda>d. map_option lower (name d) = Some k) models" for k
    by (rule filter_cong [OF refl]) (rule key)
  from h have f: "List.find (\<lambda>c. list_ex (\<lambda>d. lower (name_or_str d) = lower c) models) ?pl
      = Some cand"
    by (simp add: ex)
  let ?d = "last (filter (\<lambda>d. map_option lower (name d) = Some (lower cand)) models)"
  from h have "list_ex (\<lambda>d. map_option lower (name d) = Some (lower cand)) models"
    by (auto simp: find_Some_iff)
  then have ne: "filter (\<lambda>d. map_option lower (name d) = Some (lower cand)) models \<noteq> []"
    by (simp add: list_ex_iff filter_empty_conv)
  then have "?d \<in> set (filter (\<lambda>d. map_option lower (name d) = Some (lower cand)) models)"
    by (rule last_in_set)
  then have "?d \<in> set models" by simp
  with h obtain n where n: "name ?d = Some n"
    by (auto simp: list_all_iff)
  from choose_model_by_key [of g models pref cand] h f
  have "choose_model g pref = (Inr (name_or_str ?d), [ListModels])"
    by (simp add: fl)
  with n show "\<exists>n. name ?d = Some n \<and> choose_model g pref = (Inr n, [ListModels])"
    by (simp add: name_or_str_def)
qed

theorem choose_model_preferred_witness:
  "choose_model client_second (Some [''model-a'', ''model-b'']) = (Inr ''Model-B'', [ListModels]) \<and>
   choose_model (client_second\<lparr>list_models := Inr [model_b, model_a]\<rparr>) (Some [''MODEL-A2''])
     = (Inr ''Model-A2'', [ListModels])"
proof -
  have a: "list_models client_second = Inr [model_a, model_b] \<and>
      list_all (\<lambda>d. name d \<noteq> None) [model_a, model_b] \<and>
      List.find (\<lambda>c. list_ex (\<lambda>d. map_option lower (name d) = Some (lower c)) [model_a, model_b])
        (case Some [''model-a'', ''model-b''] of None \<Rightarrow> default_preferred | Some pl \<Rightarrow> pl)
      = Some ''model-b''"
    by code_simp
  have b: "list_models (client_second\<lparr>list_models := Inr [model_b, model_a]\<rparr>)
        = Inr [model_b, model_a] \<and>
      list_all (\<lambda>d. name d \<noteq> None) [model_b, model_a] \<and>
      List.find (\<lambda>c. list_ex (\<lambda>d. map_option lower (name d) = Some (lower c)) [model_b, model_a])
        (case Some [''MODEL-A2''] of None \<Rightarrow> default_preferred | Some pl \<Rightarrow> pl)
      = Some ''MODEL-A2''"
    by code_simp
  have c: "name (last (filter (\<lambda>d. map_option lower (name d) = Some (lower ''model-b''))
             [model_a, model_b])) = Some ''Model-B''"
    by code_simp
  have d: "name (last (filter (\<lambda>d. map_option lower (name d) = Some (lower ''MODEL-A2''))
             [model_b, model_a])) = Some ''Model-A2''"
    by code_simp
  show ?thesis
    using choose_model_preferred [THEN mp, OF a] choose_model_preferred [THEN mp, OF b] c d
    by auto
qed

text \<open>
  C5: \<^verbatim>\<open>choose_model\<close> raises the \<^verbatim>\<open>RuntimeError\<close> "Failed to list models" when the listing
  call raises, and the \<^verbatim>\<open>RuntimeError\<close> "No models returned by the API" when the listing is
  empty. On a listing that is not empty it raises nothing: it returns the name of one of the
  descriptors listed, the first one when neither the preferred list nor the capabilities
  select any.
\<close>

theorem choose_model_failures:
  "(\<forall>e. list_models g = Inl e \<longrightarrow>
      choose_model g pref =
        (Inl (Exc RuntimeError (''Failed to list models: '' @ message e)), [ListModels])) \<and>
   (list_models g = Inr [] \<longrightarrow>
      choose_model g pref =
        (Inl (Exc RuntimeError ''No models returned by the API (empty list).''), [ListModels])) \<and>
   (\<forall>m ms. list_models g = Inr (m # ms) \<longrightarrow>
      (\<exists>n. choose_model g pref = (Inr n, [ListModels]) \<and> n \<in> name_or_str ` set (m # ms) \<and>
         (first_preferred (available_of (m # ms))
            (case pref of None \<Rightarrow> default_preferred | Some pl \<Rightarrow> pl) = None \<and>
          first_capable (m # ms) = None \<longrightarrow> n = name_or_str m)))"
proof (intro conjI allI impI)
  fix e assume "list_models g = Inl e"
  then show "choose_model g pref =
        (Inl (Exc RuntimeError (''Failed to list models: '' @ message e)), [ListModels])"
    by (simp add: choose_model_def get_models_list_def)
next
  assume "list_models g = Inr []"
  then show "choose_model g pref =
        (Inl (Exc RuntimeError ''No models returned by the API (empty list).''), [ListModels])"
    by (simp add: choose_model_def get_models_list_def)
next
  fix m ms assume l: "list_models g = Inr (m # ms)"
  let ?pl = "case pref of None \<Rightarrow> default_preferred | Some pl \<Rightarrow> pl"
  show "\<exists>n. choose_model g pref = (Inr n, [ListModels]) \<and> n \<in> name_or_str ` set (m # ms) \<and>
         (first_preferred (available_of (m # ms)) ?pl = None \<and>
          first_capable (m # ms) = None \<longrightarrow> n = name_or_str m)"
  proof (cases "first_preferred (available_of (m # ms)) ?pl")
    case (Some n)
    with l first_preferred_in [OF Some] show ?thesis
      by (simp add: choose_model_def get_models_list_def)
  next
    case None
    show ?thesis
    proof (cases "first_capable (m # ms)")
      case (Some n)
      with l None first_capable_in [OF Some] show ?thesis
        by (simp add: choose_model_def get_models_list_def)
    next
      case n2: None
      with l None show ?thesis
        by (simp add: choose_model_def get_models_list_def)
    qed
  qed
qed

theorem choose_model_failures_witness:
  "choose_model client_unlisted None =
     (Inl (Exc RuntimeError ''Failed to list models: offline''), [ListModels]) \<and>
   choose_model client_empty None =
     (Inl (Exc RuntimeError ''No models returned by the API (empty list).''), [ListModels]) \<and>
   choose_model client_second None = (Inr ''Model-B'', [ListModels])"
proof -
  have "choose_model client_second None = (Inr ''Model-B'', [ListModels])"
    by code_simp
  then show ?thesis
    using choose_model_failures [of client_unlisted None]
      choose_model_failures [of client_empty None]
      choose_model_failures [of client_second None]
    by (auto simp add: client_unlisted_def client_empty_def client_second_def)
qed

section \<open>Properties of the routes\<close>

lemma truthy_as_dict: "as_dict v = Some d \<Longrightarrow> truthy v = (d \<noteq> [])"
  by (induction v arbitrary: d rule: as_dict.induct) simp_all

lemma strip_all_space: "\<forall>c \<in> set s. is_space c \<Longrightarrow> strip s = []"
proof -
  assume "\<forall>c \<in> set s. is_space c"
  then have d: "dropWhile is_space s = []" by (induction s) simp_all
  show ?thesis unfolding strip_def d by simp
qed

lemma jsonify_error_body:
  "jsonify rt [(''ok'', PBool b), (''error'', PStr s)] st =
     Inr \<lparr>status = st, body = [(''ok'', PBool b), (''error'', PStr s)]\<rparr>"
  by (simp add: jsonify_def)

text \<open>
  C10: when the body is a mapping whose \<^verbatim>\<open>"prompt"\<close> is a string of white space only, the
  route answers 400 with the missing-prompt error and makes no upstream call: neither model
  selection nor generation is attempted.
\<close>

theorem whitespace_prompt_rejected:
  "as_dict json = Some d \<and> map_of d ''prompt'' = Some v \<and> as_str v = Some s \<and>
   (\<forall>c \<in> set s. is_space c) \<longrightarrow>
   generate_route rt g json =
     (Inr \<lparr>status = 400,
           body = [(''ok'', PBool False), (''error'', PStr ''Missing prompt in JSON body.'')]\<rparr>,
      [])"
proof
  assume h: "as_dict json = Some d \<and> map_of d ''prompt'' = Some v \<and> as_str v = Some s \<and>
   (\<forall>c \<in> set s. is_space c)"
  then have "d \<noteq> []" by auto
  with h have t: "truthy json" by (simp add: truthy_as_dict)
  from h have "strip s = []" by (simp add: strip_all_space)
  with h t have "request_prompt json = Inr []"
    by (simp add: request_prompt_def)
  then show "generate_route rt g json =
     (Inr \<lparr>status = 400,
           body = [(''ok'', PBool False), (''error'', PStr ''Missing prompt in JSON body.'')]\<rparr>,
      [])"
    by (simp add: generate_route_def jsonify_error_body)
qed

theorem whitespace_prompt_rejected_witness:
  "generate_route example_runtime client_second
     (PDict [(''prompt'', PStr ('' '' @ [CHR 0x09, CHR 0x0A, CHR 0xA0] @ ''  ''))]) =
     (Inr \<lparr>status = 400,
           body = [(''ok'', PBool False), (''error'', PStr ''Missing prompt in JSON body.'')]\<rparr>,
      [])"
  using whitespace_prompt_rejected [of "PDict [(''prompt'', PStr ('' '' @ [CHR 0x09, CHR 0x0A, CHR 0xA0] @ ''  ''))]"
      "[(''prompt'', PStr ('' '' @ [CHR 0x09, CHR 0x0A, CHR 0xA0] @ ''  ''))]"
      "PStr ('' '' @ [CHR 0x09, CHR 0x0A, CHR 0xA0] @ ''  '')"
      "'' '' @ [CHR 0x09, CHR 0x0A, CHR 0xA0] @ ''  ''" example_runtime client_second]
  by (simp add: is_space_def)

lemma strategy_calls:
  "ListModels \<notin> set (snd (strategy_generate_text rt g m p t f))"
  "ListModels \<notin> set (snd (strategy_generate rt g m p t f))"
  "ListModels \<notin> set (snd (strategy_responses rt g m p t f))"
  "ListModels \<notin> set (snd (strategy_create rt g m p))"
  by (auto simp: strategy_generate_text_def strategy_generate_def strategy_responses_def
      strategy_create_def responses_create_call_def split: option.splits sum.splits if_splits prod.splits)

lemma generate_calls: "ListModels \<notin> set (snd (generate_text_with_model rt g m p t f))"
proof -
  obtain r1 c1 where s1: "strategy_generate_text rt g m p t f = (r1, c1)" by fastforce
  obtain r2 c2 where s2: "strategy_generate rt g m p t f = (r2, c2)" by fastforce
  obtain r3 c3 where s3: "strategy_responses rt g m p t f = (r3, c3)" by fastforce
  obtain r4 c4 where s4: "strategy_create rt g m p = (r4, c4)" by fastforce
  have "ListModels \<notin> set c1" "ListModels \<notin> set c2" "ListModels \<notin> set c3" "ListModels \<notin> set c4"
    using strategy_calls s1 s2 s3 s4 by (metis snd_conv)+
  with s1 s2 s3 s4 show ?thesis
    by (cases r1; cases r2; cases r3; cases r4) (simp_all add: generate_text_with_model_def)
qed

lemma choose_model_calls: "snd (choose_model g pref) = [ListModels]"
  by (auto simp: choose_model_def get_models_list_def split: sum.splits list.splits option.splits)

lemma jsonify_cases:
  "(\<exists>e. jsonify rt b st = Inl e) \<or> jsonify rt b st = Inr \<lparr>status = st, body = b\<rparr>"
  by (simp add: jsonify_def split: option.splits)

text \<open>
  C3, as stated, fails: a response can populate neither field. When the first candidate of the
  upstream answer has the output \<^verbatim>\<open>None\<close>, the normalizer hands it back and the route answers
  200 with \<^verbatim>\<open>"output": null\<close> and no error.
\<close>

theorem generate_route_null_output:
  "generate_route example_runtime client_null (PDict [(''prompt'', PStr ''Hi'')]) =
     (Inr \<lparr>status = 200,
           body = [(''ok'', PBool True), (''model_used'', PStr ''Model-B''), (''output'', PNone)]\<rparr>,
      [ListModels, GenerateText ''Model-B'' ''Hi'' 256 temperature_default]) \<and>
   \<not> populated ''output''
        [(''ok'', PBool True), (''model_used'', PStr ''Model-B''), (''output'', PNone)] \<and>
   \<not> populated ''error''
        [(''ok'', PBool True), (''model_used'', PStr ''Model-B''), (''output'', PNone)]"
proof -
  have p: "request_prompt (PDict [(''prompt'', PStr ''Hi'')]) = Inr ''Hi''"
    by (simp add: request_prompt_def strip_def is_space_def)
  have a: "choose_model client_null None = (Inr ''Model-B'', [ListModels])"
    by code_simp
  have b: "generate_text_with_model example_runtime client_null ''Model-B'' ''Hi'' 256
      temperature_default =
     (Inr PNone, [GenerateText ''Model-B'' ''Hi'' 256 temperature_default])"
    by (simp add: generate_text_with_model_def strategy_generate_text_def client_null_def
        parse_defs)
  show ?thesis
    using p a b by (simp add: generate_route_def jsonify_def populated_def)
qed

text \<open>
  C3, amended: when the request carries a prompt that is not empty after stripping, the route
  answers with a body holding exactly one of the keys \<^verbatim>\<open>"output"\<close> and \<^verbatim>\<open>"error"\<close>: either
  status 200 with \<^verbatim>\<open>ok\<close>, \<^verbatim>\<open>model_used\<close> and \<^verbatim>\<open>output\<close>, or status 500 with \<^verbatim>\<open>ok\<close> and \<^verbatim>\<open>error\<close>.
  Never are both fields populated, and one of them is, unless the output is the \<^verbatim>\<open>None\<close> that
  the normalizer returned. The first upstream call is the model listing of the selection,
  every generation call comes after it, and when the selection fails no generation call is
  made.
\<close>

theorem generate_route_outcome:
  "request_prompt json = Inr p \<and> p \<noteq> [] \<longrightarrow>
   (\<exists>r gen. generate_route rt g json = (Inr r, ListModels # gen) \<and>
      ListModels \<notin> set gen \<and>
      ((\<exists>e. fst (choose_model g None) = Inl e) \<longrightarrow> gen = []) \<and>
      (contains_key ''output'' (body r) \<noteq> contains_key ''error'' (body r)) \<and>
      (status r = 200 \<and> map fst (body r) = [''ok'', ''model_used'', ''output''] \<or>
       status r = 500 \<and> map fst (body r) = [''ok'', ''error'']) \<and>
      \<not> (populated ''output'' (body r) \<and> populated ''error'' (body r)) \<and>
      (populated ''output'' (body r) \<or> populated ''error'' (body r) \<or>
       map_of (body r) ''output'' = Some PNone))"
proof
  assume h: "request_prompt json = Inr p \<and> p \<noteq> []"
  obtain sel c0 where cm: "choose_model g None = (sel, c0)" by fastforce
  with choose_model_calls [of g None] have c0: "c0 = [ListModels]" by simp
  show "\<exists>r gen. generate_route rt g json = (Inr r, ListModels # gen) \<and>
      ListModels \<notin> set gen \<and>
      ((\<exists>e. fst (choose_model g None) = Inl e) \<longrightarrow> gen = []) \<and>
      (contains_key ''output'' (body r) \<noteq> contains_key ''error'' (body r)) \<and>
      (status r = 200 \<and> map fst (body r) = [''ok'', ''model_used'', ''output''] \<or>
       status r = 500 \<and> map fst (body r) = [''ok'', ''error'']) \<and>
      \<not> (populated ''output'' (body r) \<and> populated ''error'' (body r)) \<and>
      (populated ''output'' (body r) \<or> populated ''error'' (body r) \<or>
       map_of (body r) ''output'' = Some PNone)"
  proof (cases sel)
    case (Inl e)
    with h cm c0 show ?thesis
      by (simp add: generate_route_def jsonify_error_body contains_key_def populated_def)
  next
    case (Inr model_name)
    obtain res c1 where gt: "generate_text_with_model rt g model_name p 256 temperature_default = (res, c1)"
      by fastforce
    with generate_calls [of rt g model_name p 256 temperature_default]
    have c1: "ListModels \<notin> set c1" by simp
    show ?thesis
    proof (cases res)
      case e: (Inl e)
      with h cm c0 Inr gt c1 show ?thesis
        by (simp add: generate_route_def jsonify_error_body contains_key_def populated_def)
    next
      case v: (Inr output_text)
      from jsonify_cases [of rt "[(''ok'', PBool True), (''model_used'', PStr model_name),
          (''output'', output_text)]" 200]
      show ?thesis
      proof
        assume "\<exists>e. jsonify rt [(''ok'', PBool True), (''model_used'', PStr model_name),
          (''output'', output_text)] 200 = Inl e"
        with h cm c0 Inr gt c1 v show ?thesis
          by (auto simp add: generate_route_def jsonify_error_body contains_key_def populated_def)
      next
        assume "jsonify rt [(''ok'', PBool True), (''model_used'', PStr model_name),
          (''output'', output_text)] 200 = Inr \<lparr>status = 200, body = [(''ok'', PBool True),
          (''model_used'', PStr model_name), (''output'', output_text)]\<rparr>"
        with h cm c0 Inr gt c1 v show ?thesis
          by (simp add: generate_route_def contains_key_def populated_def)
      qed
    qed
  qed
qed

theorem generate_route_outcome_witness:
  "generate_route example_runtime client_second (PDict [(''prompt'', PStr '' Hi '')]) =
     (Inr \<lparr>status = 200,
           body = [(''ok'', PBool True), (''model_used'', PStr ''Model-B''),
                   (''output'', PStr ''hello'')]\<rparr>,
      [ListModels, GenerateText ''Model-B'' ''Hi'' 256 temperature_default,
       Generate ''Model-B'' ''Hi'' 256 temperature_default]) \<and>
   generate_route example_runtime client_unlisted (PDict [(''prompt'', PStr '' Hi '')]) =
     (Inr \<lparr>status = 500,
           body = [(''ok'', PBool False),
                   (''error'', PStr ''Model selection failed: Failed to list models: offline'')]\<rparr>,
      [ListModels])"
proof -
  have p: "request_prompt (PDict [(''prompt'', PStr '' Hi '')]) = Inr ''Hi'' \<and> ''Hi'' \<noteq> []"
    by (simp add: request_prompt_def strip_def is_space_def)
  have a: "choose_model client_second None = (Inr ''Model-B'', [ListModels])"
    by code_simp
  have b: "generate_text_with_model example_runtime client_second ''Model-B'' ''Hi'' 256
      temperature_default =
     (Inr (PStr ''hello''),
      [GenerateText ''Model-B'' ''Hi'' 256 temperature_default,
       Generate ''Model-B'' ''Hi'' 256 temperature_default])"
    by (simp add: generate_text_with_model_def strategy_generate_text_def strategy_generate_def
        client_second_def parse_defs)
  have c: "choose_model client_unlisted None =
     (Inl (Exc RuntimeError ''Failed to list models: offline''), [ListModels])"
    by (simp add: choose_model_def get_models_list_def client_unlisted_def client_second_def)
  show ?thesis
    using generate_route_outcome [THEN mp, OF p, of example_runtime client_second]
      generate_route_outcome [THEN mp, OF p, of example_runtime client_unlisted] p a b c
    by (simp add: generate_route_def jsonify_def)
qed

lemma json_error_try_call: "json_error rt (PDict (try_call rt meth r)) = None"
  by (simp add: try_call_def failure_record_def split: sum.splits option.splits)

text \<open>
  C8 holds of the code but for the preview. Line 193 cuts a string output to 500 characters
  and, in its other branch, takes the whole string conversion of any other output. Here the
  only generation function answers with a first candidate whose output is a list of 126
  \<^verbatim>\<open>None\<close>; the normalizer hands the list back, and the preview of the first attempt is its
  string conversion, 756 characters long.
\<close>

theorem debug_preview_not_truncated:
  "map length (output_previews (fst (debug_generate example_runtime client_verbose (PDict []))))
     = [756] \<and> (500::nat) < 756"
  by code_simp

text \<open>
  What the debug route does once the prompt is read and the selection has returned a model
  name: it raises nothing and answers 200 with that name and exactly four attempt records,
  in the order generate_text, generate, responses.create, create. Every function that exists
  is called, whatever the earlier attempts gave. A record names its strategy and either is
  marked ok with a preview, or is marked not ok with the \<^verbatim>\<open>repr\<close> of an exception.
\<close>

lemma debug_generate_records:
  "request_prompt json = Inr p \<and> prompt = (if p \<noteq> [] then p else ''Hello debug'') \<and>
   choose_model g None = (Inr n, c0) \<longrightarrow>
   debug_generate rt g json =
     (Inr \<lparr>status = 200,
           body =
             [(''ok'', PBool True),
              (''debug'',
               PDict
                 [(''model_used'', PStr n),
                  (''attempts'',
                   PList
                     [PDict (try_call rt ''genai.generate_text''
                               (fst (debug_generate_text rt g n prompt))),
                      PDict (try_call rt ''genai.generate''
                               (fst (debug_generate_plain rt g n prompt))),
                      PDict (try_call rt ''genai.responses.create''
                               (fst (try_responses rt g n prompt))),
                      PDict (try_call rt ''genai.create''
                               (fst (debug_create rt g n prompt)))])])]\<rparr>,
      c0 @ snd (debug_generate_text rt g n prompt) @ snd (debug_generate_plain rt g n prompt) @
        snd (try_responses rt g n prompt) @ snd (debug_create rt g n prompt)) \<and>
   (generate_text g \<noteq> None \<longrightarrow>
      snd (debug_generate_text rt g n prompt) = [GenerateText n prompt 128 temperature_default]) \<and>
   (generate g \<noteq> None \<longrightarrow>
      snd (debug_generate_plain rt g n prompt) = [Generate n prompt 128 temperature_default]) \<and>
   (\<forall>ns c. responses g = Some ns \<and> responses_create ns = Some c \<longrightarrow>
      ResponsesCreate n (Input prompt) 128 temperature_default
        \<in> set (snd (try_responses rt g n prompt))) \<and>
   (create g \<noteq> None \<longrightarrow> snd (debug_create rt g n prompt) = [Create n prompt]) \<and>
   (\<forall>meth r.
      (\<exists>s. try_call rt meth r =
         [(''method'', PStr meth), (''ok'', PBool True), (''output_preview'', PStr s)]) \<or>
      (\<exists>e. try_call rt meth r =
         [(''method'', PStr meth), (''ok'', PBool False), (''error'', PStr (repr_exc rt e))]))"
proof (intro impI conjI allI)
  assume h: "request_prompt json = Inr p \<and> prompt = (if p \<noteq> [] then p else ''Hello debug'') \<and>
   choose_model g None = (Inr n, c0)"
  then show "debug_generate rt g json =
     (Inr \<lparr>status = 200,
           body =
             [(''ok'', PBool True),
              (''debug'',
               PDict
                 [(''model_used'', PStr n),
                  (''attempts'',
                   PList
                     [PDict (try_call rt ''genai.generate_text''
                               (fst (debug_generate_text rt g n prompt))),
                      PDict (try_call rt ''genai.generate''
                               (fst (debug_generate_plain rt g n prompt))),
                      PDict (try_call rt ''genai.responses.create''
                               (fst (try_responses rt g n prompt))),
                      PDict (try_call rt ''genai.create''
                               (fst (debug_create rt g n prompt)))])])]\<rparr>,
      c0 @ snd (debug_generate_text rt g n prompt) @ snd (debug_generate_plain rt g n prompt) @
        snd (try_responses rt g n prompt) @ snd (debug_create rt g n prompt))"
    using json_error_try_call [of rt]
    by (simp add: debug_generate_def jsonify_def Let_def split: prod.splits)
next
  assume "generate_text g \<noteq> None"
  then show "snd (debug_generate_text rt g n prompt) =
      [GenerateText n prompt 128 temperature_default]"
    by (auto simp: debug_generate_text_def split: sum.splits)
next
  assume "generate g \<noteq> None"
  then show "snd (debug_generate_plain rt g n prompt) =
      [Generate n prompt 128 temperature_default]"
    by (auto simp: debug_generate_plain_def split: sum.splits)
next
  fix ns c
  assume "responses g = Some ns \<and> responses_create ns = Some c"
  then show "ResponsesCreate n (Input prompt) 128 temperature_default
        \<in> set (snd (try_responses rt g n prompt))"
    by (auto simp: try_responses_def responses_create_call_def split: sum.splits prod.splits)
next
  assume "create g \<noteq> None"
  then show "snd (debug_create rt g n prompt) = [Create n prompt]"
    by (auto simp: debug_create_def split: sum.splits)
next
  fix meth r
  show "(\<exists>s. try_call rt meth r =
         [(''method'', PStr meth), (''ok'', PBool True), (''output_preview'', PStr s)]) \<or>
      (\<exists>e. try_call rt meth r =
         [(''method'', PStr meth), (''ok'', PBool False), (''error'', PStr (repr_exc rt e))])"
    by (auto simp: try_call_def failure_record_def split: sum.splits option.splits)
qed

end
